theory Spec2Isabelle
  imports Main
begin

section \<open>Values (value.js)\<close>

text \<open>
  The three concrete subclasses of \<open>Value\<close>. Numbers are modelled as unbounded integers.
  \<open>Undefined\<close> is JavaScript's \<open>undefined\<close>, which is what reading an array past its end
  yields; it is not an instance of \<open>Value\<close>, but a register or a memory cell can hold it.
\<close>

datatype Value =
    ConstantInteger (int_value: int)
  | SymbolicMatrixElement (matrixName: string) (elem_i: int) (elem_j: int)
  | SymbolicPartialSum (leftMatrixName: string) (rightMatrixName: string)
      (sum_i: int) (sum_j: int) (sum_N: int)
  | Undefined

text \<open>
  Every \<open>throw new Error(...)\<close> of the source is named after the error kind the
  specification gives to that place. \<open>RangeError\<close> is what \<open>new Array(n)\<close> throws for a
  negative length, \<open>TypeError\<close> what calling a method on \<open>undefined\<close> throws.
  \<open>InvalidFirstValue\<close> is the throw of the \<open>MatrixRAM\<close> constructor. The largest length an
  array can have is a bound on memory and is not modelled, and neither are numbers that are
  not integers.
\<close>

datatype error =
    DimensionMismatch
  | InconsistentAccumulation
  | InvalidOperandPair
  | LengthMismatch
  | OutOfBounds
  | InvalidFirstValue
  | RangeError
  | TypeError

fun isConstantZero :: "Value \<Rightarrow> bool" where
  "isConstantZero (ConstantInteger v) = (v = 0)"
| "isConstantZero _ = False"

fun isMatrixElement :: "Value \<Rightarrow> bool" where
  "isMatrixElement (SymbolicMatrixElement n i j) = True"
| "isMatrixElement _ = False"

fun isPartialSum :: "Value \<Rightarrow> bool" where
  "isPartialSum (SymbolicPartialSum l r i j n) = True"
| "isPartialSum _ = False"

fun isValue :: "Value \<Rightarrow> bool" where
  "isValue Undefined = False"
| "isValue _ = True"

text \<open>\<open>xs[i]\<close> on an array received from a caller: \<open>undefined\<close> out of range.\<close>

definition js_nth :: "Value list \<Rightarrow> nat \<Rightarrow> Value" where
  "js_nth xs i = (if i < length xs then xs ! i else Undefined)"

section \<open>The processing element (hardware.js, OutputStationaryPE)\<close>

record OutputStationaryPE =
  regs_X :: Value
  regs_W :: Value
  regs_Acc :: Value

definition OutputStationaryPE_new :: OutputStationaryPE where
  "OutputStationaryPE_new =
     \<lparr>regs_X = ConstantInteger 0, regs_W = ConstantInteger 0, regs_Acc = ConstantInteger 0\<rparr>"

text \<open>
  The value of \<open>nextAcc\<close> at the end of \<open>update\<close>, or the error thrown on the way.
  The messages of the last two throws call \<open>toString\<close> on the registers, which is a
  \<open>TypeError\<close> on \<open>undefined\<close> before the \<open>Error\<close> is built.
\<close>

definition invalid_pair :: "Value \<Rightarrow> Value \<Rightarrow> error" where
  "invalid_pair x w = (if x = Undefined \<or> w = Undefined then TypeError else InvalidOperandPair)"

definition idle_nextAcc :: "Value \<Rightarrow> Value \<Rightarrow> Value \<Rightarrow> error + Value" where
  "idle_nextAcc x w acc =
     (if isConstantZero x \<or> isConstantZero w then Inr acc else Inl (invalid_pair x w))"

definition fold_nextAcc :: "string \<Rightarrow> int \<Rightarrow> int \<Rightarrow> string \<Rightarrow> int \<Rightarrow> int \<Rightarrow> Value \<Rightarrow> error + Value" where
  "fold_nextAcc xn xi xj wn wi wj acc =
     (let k = xj;
          next = Inr (SymbolicPartialSum xn wn xi wj (k + 1)) in
      if xj \<noteq> wi then Inl InconsistentAccumulation
      else if isConstantZero acc then
        (if k \<noteq> 0 then Inl InconsistentAccumulation else next)
      else (case acc of
          SymbolicPartialSum l r i j n \<Rightarrow>
            if n = k then
              (if l \<noteq> xn \<or> r \<noteq> wn \<or> i \<noteq> xi \<or> j \<noteq> wj
               then Inl InconsistentAccumulation else next)
            else Inl InconsistentAccumulation
        | Undefined \<Rightarrow> Inl TypeError
        | _ \<Rightarrow> Inl InconsistentAccumulation))"

definition nextAcc :: "OutputStationaryPE \<Rightarrow> error + Value" where
  "nextAcc pe =
     (case regs_X pe of
        SymbolicMatrixElement xn xi xj \<Rightarrow>
          (case regs_W pe of
             SymbolicMatrixElement wn wi wj \<Rightarrow> fold_nextAcc xn xi xj wn wi wj (regs_Acc pe)
           | _ \<Rightarrow> idle_nextAcc (regs_X pe) (regs_W pe) (regs_Acc pe))
      | _ \<Rightarrow> idle_nextAcc (regs_X pe) (regs_W pe) (regs_Acc pe))"

definition OutputStationaryPE_update ::
    "OutputStationaryPE \<Rightarrow> Value \<Rightarrow> Value \<Rightarrow> error + OutputStationaryPE" where
  "OutputStationaryPE_update pe X_in W_in =
     (case nextAcc pe of
        Inl e \<Rightarrow> Inl e
      | Inr a \<Rightarrow> Inr \<lparr>regs_X = X_in, regs_W = W_in, regs_Acc = a\<rparr>)"

section \<open>The controller (hardware.js, OutputStationaryController)\<close>

record OutputStationaryController =
  ctl_arrayWidth :: int
  ctl_streamLength :: int
  cycleCount :: int

record AllControls =
  X_memReadEnable :: bool
  X_memReadAddress :: int
  W_memReadEnable :: bool
  W_memReadAddress :: int
  Y_memWriteEnable :: bool
  Y_memWriteAddress :: int
  movesOutputDown :: bool

definition OutputStationaryController_new :: "int \<Rightarrow> int \<Rightarrow> OutputStationaryController" where
  "OutputStationaryController_new arrayWidth streamLength =
     \<lparr>ctl_arrayWidth = arrayWidth, ctl_streamLength = streamLength, cycleCount = 0\<rparr>"

definition produceControlSignals :: "OutputStationaryController \<Rightarrow> AllControls" where
  "produceControlSignals c =
     (let completeCycle = (2 * ctl_arrayWidth c - 1) + ctl_streamLength c in
      \<lparr>X_memReadEnable = cycleCount c < ctl_streamLength c,
       X_memReadAddress = cycleCount c,
       W_memReadEnable = cycleCount c < ctl_streamLength c,
       W_memReadAddress = cycleCount c,
       Y_memWriteEnable =
         (cycleCount c \<ge> completeCycle \<and> cycleCount c < completeCycle + ctl_arrayWidth c),
       Y_memWriteAddress = (ctl_arrayWidth c - 1) - (cycleCount c - completeCycle),
       movesOutputDown = (cycleCount c \<ge> completeCycle)\<rparr>)"

definition OutputStationaryController_update ::
    "OutputStationaryController \<Rightarrow> OutputStationaryController" where
  "OutputStationaryController_update c = c\<lparr>cycleCount := cycleCount c + 1\<rparr>"

section \<open>Loops that can throw\<close>

text \<open>
  A \<open>for\<close> loop over the indices \<open>is\<close> whose body may throw: the first error ends the loop.
\<close>

fun foldE :: "('a \<Rightarrow> 's \<Rightarrow> error + 's) \<Rightarrow> 'a list \<Rightarrow> 's \<Rightarrow> error + 's" where
  "foldE f [] s = Inr s"
| "foldE f (x # xs) s = (case f x s of Inl e \<Rightarrow> Inl e | Inr s' \<Rightarrow> foldE f xs s')"

fun mapE :: "('a \<Rightarrow> error + 'b) \<Rightarrow> 'a list \<Rightarrow> error + 'b list" where
  "mapE f [] = Inr []"
| "mapE f (x # xs) =
     (case f x of
        Inl e \<Rightarrow> Inl e
      | Inr y \<Rightarrow> (case mapE f xs of Inl e \<Rightarrow> Inl e | Inr ys \<Rightarrow> Inr (y # ys)))"

definition bindE :: "error + 'a \<Rightarrow> ('a \<Rightarrow> error + 'b) \<Rightarrow> error + 'b" where
  "bindE m f = (case m of Inl e \<Rightarrow> Inl e | Inr x \<Rightarrow> f x)"

section \<open>The systolic array (hardware.js, OutputStationarySystolicArray)\<close>

text \<open>
  \<open>new Array(N)\<close> has succeeded when an array object exists, so its \<open>N\<close> is kept as a
  natural number. The grid is a list of rows; the loops below only use indices below \<open>N\<close>,
  which are in range for a grid built by the constructor.
\<close>

record OutputStationarySystolicArray =
  sa_N :: nat
  sa_array :: "OutputStationaryPE list list"

definition OutputStationarySystolicArray_new :: "int \<Rightarrow> error + OutputStationarySystolicArray" where
  "OutputStationarySystolicArray_new N =
     (if N < 0 then Inl RangeError
      else Inr \<lparr>sa_N = nat N,
                sa_array = map (\<lambda>i. map (\<lambda>j. OutputStationaryPE_new) [0..<nat N]) [0..<nat N]\<rparr>)"

definition OutputStationarySystolicArray_produce_output ::
    "OutputStationarySystolicArray \<Rightarrow> bool \<Rightarrow> Value list" where
  "OutputStationarySystolicArray_produce_output sa moves =
     (if moves then map (\<lambda>i. regs_Acc (sa_array sa ! (sa_N sa - 1) ! i)) [0..<sa_N sa]
      else map (\<lambda>i. ConstantInteger 0) [0..<sa_N sa])"

definition move_Acc_down :: "nat \<Rightarrow> nat \<Rightarrow> OutputStationaryPE list list \<Rightarrow> OutputStationaryPE list list" where
  "move_Acc_down j i arr =
     arr[i := (arr ! i)[j := (arr ! i ! j)\<lparr>regs_Acc := regs_Acc (arr ! (i - 1) ! j)\<rparr>]]"

definition clear_Acc :: "nat \<Rightarrow> OutputStationaryPE list list \<Rightarrow> OutputStationaryPE list list" where
  "clear_Acc j arr = arr[0 := (arr ! 0)[j := (arr ! 0 ! j)\<lparr>regs_Acc := ConstantInteger 0\<rparr>]]"

text \<open>The body of the loop over \<open>j\<close> when evicting: \<open>i\<close> runs from \<open>N - 1\<close> down to 1.\<close>

definition evict_column :: "nat \<Rightarrow> nat \<Rightarrow> OutputStationaryPE list list \<Rightarrow> OutputStationaryPE list list" where
  "evict_column N j arr = clear_Acc j (fold (move_Acc_down j) (rev [1..<N]) arr)"

definition update_PE_at ::
    "Value list \<Rightarrow> Value list \<Rightarrow> nat \<Rightarrow> nat \<Rightarrow> OutputStationaryPE list list
      \<Rightarrow> error + OutputStationaryPE list list" where
  "update_PE_at inputs_X inputs_W i j arr =
     (case OutputStationaryPE_update (arr ! i ! j)
             (if j = 0 then js_nth inputs_X i else regs_X (arr ! i ! (j - 1)))
             (if i = 0 then js_nth inputs_W j else regs_W (arr ! (i - 1) ! j)) of
        Inl e \<Rightarrow> Inl e
      | Inr pe \<Rightarrow> Inr (arr[i := (arr ! i)[j := pe]]))"

text \<open>Both loops of the other branch run from \<open>N - 1\<close> down to 0, in place.\<close>

definition OutputStationarySystolicArray_update ::
    "OutputStationarySystolicArray \<Rightarrow> Value list \<Rightarrow> Value list \<Rightarrow> bool
      \<Rightarrow> error + OutputStationarySystolicArray" where
  "OutputStationarySystolicArray_update sa inputs_X inputs_W moves =
     (if moves then
        Inr (sa\<lparr>sa_array := fold (evict_column (sa_N sa)) [0..<sa_N sa] (sa_array sa)\<rparr>)
      else
        (case foldE (\<lambda>i. foldE (update_PE_at inputs_X inputs_W i) (rev [0..<sa_N sa]))
                (rev [0..<sa_N sa]) (sa_array sa) of
           Inl e \<Rightarrow> Inl e
         | Inr arr \<Rightarrow> Inr (sa\<lparr>sa_array := arr\<rparr>)))"

section \<open>The delay registers (hardware.js, DelayRegisterTriangle)\<close>

record DelayRegisterTriangle =
  dt_N :: nat
  registers :: "Value list list"

text \<open>Row \<open>i\<close> is created with \<open>new Array(i)\<close> and then written at \<open>0..i\<close>: it has \<open>i + 1\<close> slots.\<close>

definition DelayRegisterTriangle_new :: "int \<Rightarrow> error + DelayRegisterTriangle" where
  "DelayRegisterTriangle_new N =
     (if N < 0 then Inl RangeError
      else Inr \<lparr>dt_N = nat N,
                registers = map (\<lambda>i. map (\<lambda>j. ConstantInteger 0) [0..<Suc i]) [0..<nat N]\<rparr>)"

definition DelayRegisterTriangle_produce_output ::
    "DelayRegisterTriangle \<Rightarrow> Value list \<Rightarrow> error + Value list" where
  "DelayRegisterTriangle_produce_output d input =
     (if length input \<noteq> dt_N d + 1 then Inl LengthMismatch
      else Inr (js_nth input 0 # map (\<lambda>i. registers d ! (i - 1) ! (i - 1)) [1..<Suc (dt_N d)]))"

definition shift_register :: "nat \<Rightarrow> nat \<Rightarrow> Value list list \<Rightarrow> Value list list" where
  "shift_register i j regs = regs[i := (regs ! i)[j := regs ! i ! (j - 1)]]"

text \<open>The body of the loop over \<open>i\<close>: \<open>j\<close> runs from \<open>i\<close> down to 1, then slot 0 is loaded.\<close>

definition shift_chain :: "Value list \<Rightarrow> nat \<Rightarrow> Value list list \<Rightarrow> Value list list" where
  "shift_chain input i regs =
     (let regs' = fold (shift_register i) (rev [1..<Suc i]) regs
      in regs'[i := (regs' ! i)[0 := js_nth input (i + 1)]])"

definition DelayRegisterTriangle_update ::
    "DelayRegisterTriangle \<Rightarrow> Value list \<Rightarrow> error + DelayRegisterTriangle" where
  "DelayRegisterTriangle_update d input =
     (if length input \<noteq> dt_N d + 1 then Inl LengthMismatch
      else Inr (d\<lparr>registers := fold (shift_chain input) [0..<dt_N d] (registers d)\<rparr>))"

section \<open>The memories (hardware.js, MatrixRAM)\<close>

text \<open>
  The constructor only passes the product of the two counts to \<open>new Array\<close>, so the counts
  stay integers. A slot that is never written is a hole, which reads as \<open>undefined\<close>.
  Cell indices written by the loops are below the length of \<open>cells\<close> for every memory the
  constructor has built.
\<close>

record MatrixRAM =
  row_count :: int
  col_count :: int
  cells :: "Value list"

definition generated_element :: "string \<Rightarrow> bool \<Rightarrow> nat \<Rightarrow> nat \<Rightarrow> Value" where
  "generated_element name transposed i j =
     (if transposed then SymbolicMatrixElement name (int j) (int i)
      else SymbolicMatrixElement name (int i) (int j))"

definition MatrixRAM_new :: "int \<Rightarrow> int \<Rightarrow> Value \<Rightarrow> bool \<Rightarrow> error + MatrixRAM" where
  "MatrixRAM_new rows cols first_value transposed =
     (if rows * cols < 0 then Inl RangeError
      else
        (let holes = replicate (nat (rows * cols)) Undefined in
         case first_value of
           ConstantInteger v \<Rightarrow>
             Inr \<lparr>row_count = rows, col_count = cols,
                  cells = fold (\<lambda>i cs. cs[i := first_value]) [0..<nat (rows * cols)] holes\<rparr>
         | SymbolicMatrixElement name i0 j0 \<Rightarrow>
             Inr \<lparr>row_count = rows, col_count = cols,
                  cells = fold (\<lambda>i. fold (\<lambda>j cs. cs[nat (int i * cols + int j) :=
                                                   generated_element name transposed i j])
                                      [0..<nat cols])
                            [0..<nat rows] holes\<rparr>
         | _ \<Rightarrow> Inl InvalidFirstValue))"

definition checkPosition :: "MatrixRAM \<Rightarrow> int \<Rightarrow> int \<Rightarrow> int \<Rightarrow> error option" where
  "checkPosition m row_index col_offset element_count =
     (if row_index < 0 \<or> row_index \<ge> row_count m then Some OutOfBounds
      else if col_offset < 0 \<or> col_offset + element_count > col_count m then Some OutOfBounds
      else None)"

text \<open>\<open>Array.prototype.slice\<close> with both arguments given, on integers.\<close>

definition js_slice :: "'a list \<Rightarrow> int \<Rightarrow> int \<Rightarrow> 'a list" where
  "js_slice xs start fin =
     (let len = int (length xs);
          k = (if start < 0 then max (len + start) 0 else min start len);
          final = (if fin < 0 then max (len + fin) 0 else min fin len)
      in take (nat (final - k)) (drop (nat k) xs))"

definition readRow :: "MatrixRAM \<Rightarrow> int \<Rightarrow> int \<Rightarrow> int \<Rightarrow> error + Value list" where
  "readRow m row_index col_offset element_count =
     (case checkPosition m row_index col_offset element_count of
        Some e \<Rightarrow> Inl e
      | None \<Rightarrow>
          (let start = row_index * col_count m + col_offset
           in Inr (js_slice (cells m) start (start + element_count))))"

definition writeRow :: "MatrixRAM \<Rightarrow> int \<Rightarrow> int \<Rightarrow> int \<Rightarrow> Value list \<Rightarrow> error + MatrixRAM" where
  "writeRow m row_index col_offset element_count row =
     (case checkPosition m row_index col_offset element_count of
        Some e \<Rightarrow> Inl e
      | None \<Rightarrow>
          (let start = row_index * col_count m + col_offset
           in Inr (m\<lparr>cells := fold (\<lambda>i cs. cs[nat (start + int i) := js_nth row i])
                                 [0..<nat element_count] (cells m)\<rparr>)))"

section \<open>Printing values (value.js, toString)\<close>

text \<open>Template literals print an integer in decimal.\<close>

fun digits :: "nat \<Rightarrow> string" where
  "digits n = (if n < 10 then [char_of (48 + n)] else digits (n div 10) @ [char_of (48 + n mod 10)])"

definition number_toString :: "int \<Rightarrow> string" where
  "number_toString i = (if i < 0 then CHR ''-'' # digits (nat (- i)) else digits (nat i))"

text \<open>The partial sum prints as a backslash (character 92) followed by \<open>sum_{0}^{N-1} ...\<close>.\<close>

fun toString :: "Value \<Rightarrow> error + string" where
  "toString (ConstantInteger v) = Inr (number_toString v)"
| "toString (SymbolicMatrixElement name i j) =
     Inr (name @ ''_{'' @ number_toString i @ number_toString j @ ''}'')"
| "toString (SymbolicPartialSum l r i j n) =
     Inr (char_of (92 :: nat) # ''sum_{0}^{'' @ number_toString (n - 1) @ ''} ''
          @ l @ ''_{'' @ number_toString i @ ''i} ''
          @ r @ ''_{i'' @ number_toString j @ ''}'')"
| "toString Undefined = Inl TypeError"

section \<open>The top level (hardware.js, OutputStationaryTopLevel)\<close>

record OutputStationaryTopLevel =
  arrayWidth :: int
  streamLength :: int
  X_mem :: MatrixRAM
  W_mem :: MatrixRAM
  Y_mem :: MatrixRAM
  X_delay :: DelayRegisterTriangle
  W_delay :: DelayRegisterTriangle
  systolicArray :: OutputStationarySystolicArray
  controller :: OutputStationaryController

definition OutputStationaryTopLevel_new ::
    "int \<Rightarrow> int \<Rightarrow> int \<Rightarrow> int \<Rightarrow> int \<Rightarrow> int \<Rightarrow> error + OutputStationaryTopLevel" where
  "OutputStationaryTopLevel_new X_row_count X_col_count W_row_count W_col_count
       systolic_row_count systolic_col_count =
     (if X_col_count \<noteq> W_row_count then Inl DimensionMismatch
      else if X_row_count \<noteq> systolic_row_count \<or> W_col_count \<noteq> systolic_col_count
        then Inl DimensionMismatch
      else if systolic_row_count \<noteq> systolic_col_count then Inl DimensionMismatch
      else
        (let aw = systolic_row_count; sl = X_col_count in
         bindE (MatrixRAM_new X_col_count X_row_count (SymbolicMatrixElement ''X'' 0 0) True) (\<lambda>xm.
         bindE (MatrixRAM_new W_row_count W_col_count (SymbolicMatrixElement ''W'' 0 0) False) (\<lambda>wm.
         bindE (MatrixRAM_new aw aw (ConstantInteger 0) False) (\<lambda>ym.
         bindE (DelayRegisterTriangle_new (aw - 1)) (\<lambda>xd.
         bindE (DelayRegisterTriangle_new (aw - 1)) (\<lambda>wd.
         bindE (OutputStationarySystolicArray_new aw) (\<lambda>sa.
         Inr \<lparr>arrayWidth = aw, streamLength = sl,
              X_mem = xm, W_mem = wm, Y_mem = ym, X_delay = xd, W_delay = wd,
              systolicArray = sa,
              controller = OutputStationaryController_new aw sl\<rparr>))))))))"

text \<open>\<open>new Array(n).fill(v)\<close>.\<close>

definition js_Array_fill :: "int \<Rightarrow> Value \<Rightarrow> error + Value list" where
  "js_Array_fill n v = (if n < 0 then Inl RangeError else Inr (replicate (nat n) v))"

definition OutputStationaryTopLevel_update ::
    "OutputStationaryTopLevel \<Rightarrow> error + OutputStationaryTopLevel" where
  "OutputStationaryTopLevel_update t =
     (let controls = produceControlSignals (controller t);
          ctl' = OutputStationaryController_update (controller t) in
      bindE (if X_memReadEnable controls
             then readRow (X_mem t) (X_memReadAddress controls) 0 (arrayWidth t)
             else js_Array_fill (arrayWidth t) (ConstantInteger 0)) (\<lambda>X_in.
      bindE (if W_memReadEnable controls
             then readRow (W_mem t) (W_memReadAddress controls) 0 (arrayWidth t)
             else js_Array_fill (arrayWidth t) (ConstantInteger 0)) (\<lambda>W_in.
      bindE (DelayRegisterTriangle_produce_output (X_delay t) X_in) (\<lambda>X_in_delayed.
      bindE (DelayRegisterTriangle_update (X_delay t) X_in) (\<lambda>xd'.
      bindE (DelayRegisterTriangle_produce_output (W_delay t) W_in) (\<lambda>W_in_delayed.
      bindE (DelayRegisterTriangle_update (W_delay t) W_in) (\<lambda>wd'.
      (let Y_out = OutputStationarySystolicArray_produce_output (systolicArray t)
                     (movesOutputDown controls) in
       bindE (if Y_memWriteEnable controls
              then writeRow (Y_mem t) (Y_memWriteAddress controls) 0 (arrayWidth t) Y_out
              else Inr (Y_mem t)) (\<lambda>ym'.
       bindE (OutputStationarySystolicArray_update (systolicArray t) X_in_delayed W_in_delayed
                (movesOutputDown controls)) (\<lambda>sa'.
       Inr (t\<lparr>Y_mem := ym', X_delay := xd', W_delay := wd', systolicArray := sa',
               controller := ctl'\<rparr>)))))))))))"

text \<open>
  The snapshot of \<open>dump_state\<close>. \<open>Array.prototype.map\<close> skips holes; a hole is \<open>Undefined\<close>
  here and fails to print, which only differs for a memory built with two negative counts.
\<close>

record PE_dump =
  dump_X :: string
  dump_W :: string
  dump_Acc :: string

record dump_regs =
  dump_X_mem :: "string list"
  dump_W_mem :: "string list"
  dump_Y_mem :: "string list"
  dump_X_delay :: "string list list"
  dump_W_delay :: "string list list"
  dump_systolicArray :: "PE_dump list list"
  dump_cycleCount :: int

record snapshot =
  regs :: dump_regs
  controlSignals :: AllControls

definition dump_PE :: "OutputStationaryPE \<Rightarrow> error + PE_dump" where
  "dump_PE pe =
     bindE (toString (regs_X pe)) (\<lambda>x.
     bindE (toString (regs_W pe)) (\<lambda>w.
     bindE (toString (regs_Acc pe)) (\<lambda>a.
     Inr \<lparr>dump_X = x, dump_W = w, dump_Acc = a\<rparr>)))"

definition dump_state :: "OutputStationaryTopLevel \<Rightarrow> error + snapshot" where
  "dump_state t =
     bindE (mapE toString (cells (X_mem t))) (\<lambda>xm.
     bindE (mapE toString (cells (W_mem t))) (\<lambda>wm.
     bindE (mapE toString (cells (Y_mem t))) (\<lambda>ym.
     bindE (mapE (mapE toString) (registers (X_delay t))) (\<lambda>xd.
     bindE (mapE (mapE toString) (registers (W_delay t))) (\<lambda>wd.
     bindE (mapE (mapE dump_PE) (sa_array (systolicArray t))) (\<lambda>sa.
     Inr \<lparr>regs = \<lparr>dump_X_mem = xm, dump_W_mem = wm, dump_Y_mem = ym,
                  dump_X_delay = xd, dump_W_delay = wd, dump_systolicArray = sa,
                  dump_cycleCount = cycleCount (controller t)\<rparr>,
          controlSignals = produceControlSignals (controller t)\<rparr>))))))"

fun simulate_loop ::
    "nat \<Rightarrow> OutputStationaryTopLevel \<Rightarrow> error + (snapshot list \<times> OutputStationaryTopLevel)" where
  "simulate_loop 0 t = Inr ([], t)"
| "simulate_loop (Suc n) t =
     bindE (dump_state t) (\<lambda>d.
     bindE (OutputStationaryTopLevel_update t) (\<lambda>t'.
     bindE (simulate_loop n t') (\<lambda>(ds, t''). Inr (d # ds, t''))))"

text \<open>
  \<open>simulate(numCycles)\<close>, with \<open>None\<close> for \<open>null\<close>: the snapshots, and the top level as the
  run leaves it.
\<close>

definition simulate ::
    "OutputStationaryTopLevel \<Rightarrow> int option
      \<Rightarrow> error + (snapshot list \<times> OutputStationaryTopLevel)" where
  "simulate t numCycles =
     (let n = (case numCycles of None \<Rightarrow> 3 * arrayWidth t + streamLength t | Some c \<Rightarrow> c)
      in if n < 0 then Inl RangeError else simulate_loop (nat n) t)"

section \<open>The driver (generateOutput.js)\<close>

text \<open>
  The script builds a top level and calls \<open>simulate(null)\<close> on it. Its six dimensions, which
  the script fixes to 2, 3, 3, 2, 2, 2, are parameters here.
\<close>

definition generateOutput ::
    "int \<Rightarrow> int \<Rightarrow> int \<Rightarrow> int \<Rightarrow> int \<Rightarrow> int
      \<Rightarrow> error + (snapshot list \<times> OutputStationaryTopLevel)" where
  "generateOutput X_row_count X_col_count W_row_count W_col_count
       systolic_row_count systolic_col_count =
     bindE (OutputStationaryTopLevel_new X_row_count X_col_count W_row_count W_col_count
              systolic_row_count systolic_col_count)
       (\<lambda>topLevel. simulate topLevel None)"

section \<open>Closed forms of the arrays\<close>

text \<open>
  A jagged array given by its row count, the length of each row and the value at each
  position. The proofs describe the grid of processing elements and the triangle of delay
  registers in this form.
\<close>

definition jag :: "nat \<Rightarrow> (nat \<Rightarrow> nat) \<Rightarrow> (nat \<Rightarrow> nat \<Rightarrow> 'a) \<Rightarrow> 'a list list" where
  "jag R C f = map (\<lambda>i. map (f i) [0..<C i]) [0..<R]"

abbreviation grid :: "nat \<Rightarrow> (nat \<Rightarrow> nat \<Rightarrow> 'a) \<Rightarrow> 'a list list" where
  "grid N \<equiv> jag N (\<lambda>i. N)"

abbreviation tri :: "nat \<Rightarrow> (nat \<Rightarrow> nat \<Rightarrow> 'a) \<Rightarrow> 'a list list" where
  "tri N \<equiv> jag N Suc"

text \<open>The shape the constructor gives to the systolic array: \<open>N\<close> rows of \<open>N\<close> elements.\<close>

definition wf_array :: "OutputStationarySystolicArray \<Rightarrow> bool" where
  "wf_array sa \<longleftrightarrow> length (sa_array sa) = sa_N sa \<and> list_all (\<lambda>row. length row = sa_N sa) (sa_array sa)"

section \<open>Closed form of the state after \<open>t\<close> cycles\<close>

text \<open>
  What the proofs show every register and memory cell to hold after \<open>t\<close> updates of a top
  level of array width \<open>N\<close> and stream length \<open>L\<close>. \<open>xel\<close> and \<open>wel\<close> are the elements of
  \<open>X\<close> and \<open>W\<close> with reduction index \<open>k\<close> while \<open>k\<close> is inside the stream, and the zero
  constant otherwise; \<open>psum\<close> is the partial sum of \<open>c\<close> terms, which is the zero constant
  before the first term. While the array is not evicting, the element at row \<open>i\<close> and column
  \<open>j\<close> holds the operands of reduction index \<open>t - 1 - i - j\<close> and has folded the terms
  before them (\<open>pe_flow\<close>); from \<open>drainStart\<close> on, the operands stay and the sums move down
  one row per cycle (\<open>pe_at\<close>). Row \<open>r\<close> of the output memory is written at cycle
  \<open>drainStart + N - 1 - r\<close> (\<open>Y_cells\<close>), and delay register \<open>j\<close> of chain \<open>i\<close> holds the
  input of \<open>j + 1\<close> cycles ago (\<open>top_at\<close>).
\<close>

definition xel :: "nat \<Rightarrow> nat \<Rightarrow> int \<Rightarrow> Value" where
  "xel L i k = (if 0 \<le> k \<and> k < int L then SymbolicMatrixElement ''X'' (int i) k else ConstantInteger 0)"

definition wel :: "nat \<Rightarrow> int \<Rightarrow> nat \<Rightarrow> Value" where
  "wel L k j = (if 0 \<le> k \<and> k < int L then SymbolicMatrixElement ''W'' k (int j) else ConstantInteger 0)"

definition psum :: "nat \<Rightarrow> nat \<Rightarrow> int \<Rightarrow> Value" where
  "psum i j c = (if c \<le> 0 then ConstantInteger 0
                 else SymbolicPartialSum ''X'' ''W'' (int i) (int j) c)"

definition pe_flow :: "nat \<Rightarrow> int \<Rightarrow> nat \<Rightarrow> nat \<Rightarrow> OutputStationaryPE" where
  "pe_flow L m i j = \<lparr>regs_X = xel L i m, regs_W = wel L m j, regs_Acc = psum i j (min (int L) m)\<rparr>"

definition drainStart :: "nat \<Rightarrow> nat \<Rightarrow> nat" where
  "drainStart N L = 2 * N - 1 + L"

definition pe_at :: "nat \<Rightarrow> nat \<Rightarrow> nat \<Rightarrow> nat \<Rightarrow> nat \<Rightarrow> OutputStationaryPE" where
  "pe_at N L t i j =
     (if t \<le> drainStart N L then pe_flow L (int t - 1 - int i - int j) i j
      else (pe_flow L (int (drainStart N L) - 1 - int i - int j) i j)
             \<lparr>regs_Acc := (if t - drainStart N L \<le> i then psum (i - (t - drainStart N L)) j (int L)
                            else ConstantInteger 0)\<rparr>)"

definition Y_cells :: "nat \<Rightarrow> nat \<Rightarrow> nat \<Rightarrow> Value list" where
  "Y_cells N L t = map (\<lambda>k. if drainStart N L + N \<le> t + k div N
                                  then psum (k div N) (k mod N) (int L) else ConstantInteger 0)
                         [0..<N * N]"

definition top_at :: "nat \<Rightarrow> nat \<Rightarrow> nat \<Rightarrow> OutputStationaryTopLevel" where
  "top_at N L t =
     \<lparr>arrayWidth = int N, streamLength = int L,
      X_mem = \<lparr>row_count = int L, col_count = int N,
               cells = map (\<lambda>k. generated_element ''X'' True (k div N) (k mod N)) [0..<L * N]\<rparr>,
      W_mem = \<lparr>row_count = int L, col_count = int N,
               cells = map (\<lambda>k. generated_element ''W'' False (k div N) (k mod N)) [0..<L * N]\<rparr>,
      Y_mem = \<lparr>row_count = int N, col_count = int N, cells = Y_cells N L t\<rparr>,
      X_delay = \<lparr>dt_N = N - 1, registers = tri (N - 1) (\<lambda>i j. xel L (Suc i) (int t - 1 - int j))\<rparr>,
      W_delay = \<lparr>dt_N = N - 1, registers = tri (N - 1) (\<lambda>i j. wel L (int t - 1 - int j) (Suc i))\<rparr>,
      systolicArray = \<lparr>sa_N = N, sa_array = grid N (pe_at N L t)\<rparr>,
      controller = \<lparr>ctl_arrayWidth = int N, ctl_streamLength = int L, cycleCount = int t\<rparr>\<rparr>"

text \<open>The snapshot of that state, with \<open>toString\<close> made total by printing nothing on a throw.\<close>

definition printed :: "Value \<Rightarrow> string" where
  "printed v = (case toString v of Inl e \<Rightarrow> [] | Inr s \<Rightarrow> s)"

definition printed_PE :: "OutputStationaryPE \<Rightarrow> PE_dump" where
  "printed_PE pe = \<lparr>dump_X = printed (regs_X pe), dump_W = printed (regs_W pe),
                    dump_Acc = printed (regs_Acc pe)\<rparr>"

definition snapshot_at :: "nat \<Rightarrow> nat \<Rightarrow> nat \<Rightarrow> snapshot" where
  "snapshot_at N L t =
     \<lparr>regs = \<lparr>dump_X_mem = map printed (cells (X_mem (top_at N L t))),
              dump_W_mem = map printed (cells (W_mem (top_at N L t))),
              dump_Y_mem = map printed (Y_cells N L t),
              dump_X_delay = map (map printed) (registers (X_delay (top_at N L t))),
              dump_W_delay = map (map printed) (registers (W_delay (top_at N L t))),
              dump_systolicArray = map (map printed_PE) (sa_array (systolicArray (top_at N L t))),
              dump_cycleCount = int t\<rparr>,
      controlSignals = produceControlSignals (controller (top_at N L t))\<rparr>"

section \<open>Properties of the processing element\<close>

lemma nextAcc_cases:
  "nextAcc pe =
     (if isMatrixElement (regs_X pe) \<and> isMatrixElement (regs_W pe)
      then fold_nextAcc (matrixName (regs_X pe)) (elem_i (regs_X pe)) (elem_j (regs_X pe))
             (matrixName (regs_W pe)) (elem_i (regs_W pe)) (elem_j (regs_W pe)) (regs_Acc pe)
      else idle_nextAcc (regs_X pe) (regs_W pe) (regs_Acc pe))"
  by (cases "regs_X pe"; cases "regs_W pe") (simp_all add: nextAcc_def)

lemma update_Inr_iff:
  "OutputStationaryPE_update pe X_in W_in = Inr pe' \<longleftrightarrow>
     (\<exists>a. nextAcc pe = Inr a \<and> pe' = \<lparr>regs_X = X_in, regs_W = W_in, regs_Acc = a\<rparr>)"
  by (auto simp: OutputStationaryPE_update_def split: sum.splits)

lemma update_Inl_iff:
  "OutputStationaryPE_update pe X_in W_in = Inl e \<longleftrightarrow> nextAcc pe = Inl e"
  by (auto simp: OutputStationaryPE_update_def split: sum.splits)

lemma fold_nextAcc_Inr:
  "fold_nextAcc xn xi xj wn wi wj acc = Inr a \<Longrightarrow> a = SymbolicPartialSum xn wn xi wj (xj + 1)"
  by (cases acc) (simp_all add: fold_nextAcc_def Let_def split: if_splits)

lemma fold_nextAcc_Inl:
  "acc \<noteq> Undefined \<Longrightarrow>
   fold_nextAcc xn xi xj wn wi wj acc = Inl e \<longleftrightarrow>
     e = InconsistentAccumulation \<and>
     (xj \<noteq> wi
      \<or> (isConstantZero acc \<and> xj \<noteq> 0)
      \<or> (isPartialSum acc \<and> sum_N acc = xj \<and>
          (leftMatrixName acc \<noteq> xn \<or> rightMatrixName acc \<noteq> wn \<or> sum_i acc \<noteq> xi \<or> sum_j acc \<noteq> wj))
      \<or> (\<not> isConstantZero acc \<and> \<not> (isPartialSum acc \<and> sum_N acc = xj)))"
  by (cases acc) (auto simp: fold_nextAcc_def Let_def)

lemma zero_not_element: "isConstantZero v \<Longrightarrow> \<not> isMatrixElement v"
  by (cases v) simp_all

lemma idle_update:
  assumes "isConstantZero (regs_X pe) \<or> isConstantZero (regs_W pe)"
  shows "OutputStationaryPE_update pe X_in W_in
         = Inr \<lparr>regs_X = X_in, regs_W = W_in, regs_Acc = regs_Acc pe\<rparr>"
proof -
  from assms have "\<not> (isMatrixElement (regs_X pe) \<and> isMatrixElement (regs_W pe))"
    using zero_not_element by blast
  with assms have "nextAcc pe = Inr (regs_Acc pe)"
    by (auto simp: nextAcc_cases idle_nextAcc_def)
  then show ?thesis by (simp add: OutputStationaryPE_update_def)
qed

lemma fold_update:
  assumes "isMatrixElement (regs_X pe)" "isMatrixElement (regs_W pe)"
    and "elem_j (regs_X pe) = elem_i (regs_W pe)"
    and "(isConstantZero (regs_Acc pe) \<and> elem_j (regs_X pe) = 0)
         \<or> regs_Acc pe = SymbolicPartialSum (matrixName (regs_X pe)) (matrixName (regs_W pe))
                            (elem_i (regs_X pe)) (elem_j (regs_W pe)) (elem_j (regs_X pe))"
  shows "OutputStationaryPE_update pe X_in W_in
         = Inr \<lparr>regs_X = X_in, regs_W = W_in,
                regs_Acc = SymbolicPartialSum (matrixName (regs_X pe)) (matrixName (regs_W pe))
                             (elem_i (regs_X pe)) (elem_j (regs_W pe)) (elem_j (regs_X pe) + 1)\<rparr>"
proof -
  have "fold_nextAcc (matrixName (regs_X pe)) (elem_i (regs_X pe)) (elem_j (regs_X pe))
             (matrixName (regs_W pe)) (elem_i (regs_W pe)) (elem_j (regs_W pe)) (regs_Acc pe)
        = Inr (SymbolicPartialSum (matrixName (regs_X pe)) (matrixName (regs_W pe))
                             (elem_i (regs_X pe)) (elem_j (regs_W pe)) (elem_j (regs_X pe) + 1))"
    using assms(3,4) by (auto simp: fold_nextAcc_def Let_def)
  with assms(1,2) show ?thesis
    by (simp add: OutputStationaryPE_update_def nextAcc_cases)
qed

lemma update_Inr_registers:
  assumes "OutputStationaryPE_update pe X_in W_in = Inr pe'"
  shows "regs_X pe' = X_in \<and> regs_W pe' = W_in \<and>
         (isMatrixElement (regs_X pe) \<and> isMatrixElement (regs_W pe) \<longrightarrow>
            regs_Acc pe' = SymbolicPartialSum (matrixName (regs_X pe)) (matrixName (regs_W pe))
                             (elem_i (regs_X pe)) (elem_j (regs_W pe)) (elem_j (regs_X pe) + 1)) \<and>
         (isConstantZero (regs_X pe) \<or> isConstantZero (regs_W pe) \<longrightarrow> regs_Acc pe' = regs_Acc pe) \<and>
         ((isMatrixElement (regs_X pe) \<and> isMatrixElement (regs_W pe)) \<or>
           isConstantZero (regs_X pe) \<or> isConstantZero (regs_W pe))"
proof -
  from assms obtain a where a: "nextAcc pe = Inr a"
    and pe': "pe' = \<lparr>regs_X = X_in, regs_W = W_in, regs_Acc = a\<rparr>"
    by (auto simp: update_Inr_iff)
  show ?thesis
  proof (cases "isMatrixElement (regs_X pe) \<and> isMatrixElement (regs_W pe)")
    case True
    then have notz: "\<not> isConstantZero (regs_X pe)" "\<not> isConstantZero (regs_W pe)"
      using zero_not_element by blast+
    from True a have "a = SymbolicPartialSum (matrixName (regs_X pe)) (matrixName (regs_W pe))
                             (elem_i (regs_X pe)) (elem_j (regs_W pe)) (elem_j (regs_X pe) + 1)"
      by (simp add: nextAcc_cases fold_nextAcc_Inr)
    with True notz pe' show ?thesis by simp
  next
    case False
    with a have "idle_nextAcc (regs_X pe) (regs_W pe) (regs_Acc pe) = Inr a"
      by (simp add: nextAcc_cases)
    then have "(isConstantZero (regs_X pe) \<or> isConstantZero (regs_W pe)) \<and> a = regs_Acc pe"
      by (simp add: idle_nextAcc_def split: if_splits)
    with False pe' show ?thesis by auto
  qed
qed

text \<open>
  C2: an \<open>update\<close> of a processing element that does not throw replaces the three registers:
  \<open>X\<close> becomes \<open>X_in\<close>, \<open>W\<close> becomes \<open>W_in\<close>, and \<open>Acc\<close> becomes the next accumulator. When
  the current \<open>X\<close> and \<open>W\<close> are both matrix elements, the next accumulator is the partial sum
  named after their matrices, with \<open>i\<close> of \<open>X\<close>, \<open>j\<close> of \<open>W\<close> and count \<open>k + 1\<close> for the column
  index \<open>k\<close> of \<open>X\<close>; when either is the zero constant, it is the current \<open>Acc\<close>. One of the two
  cases holds whenever the update does not throw. Both cases happen: when either \<open>X\<close> or \<open>W\<close>
  is the zero constant the update does not throw and returns \<open>X_in\<close>, \<open>W_in\<close> and the current
  \<open>Acc\<close>; when both are matrix elements whose reduction indices agree on \<open>k\<close>, and \<open>Acc\<close> is
  the zero constant with \<open>k = 0\<close> or the partial sum of count \<open>k\<close> for their names and indices,
  it does not throw and returns \<open>X_in\<close>, \<open>W_in\<close> and that partial sum with count \<open>k + 1\<close>.
\<close>

theorem PE_update_replaces_registers:
  "(OutputStationaryPE_update pe X_in W_in = Inr pe' \<longrightarrow>
      regs_X pe' = X_in \<and> regs_W pe' = W_in \<and>
      (isMatrixElement (regs_X pe) \<and> isMatrixElement (regs_W pe) \<longrightarrow>
         regs_Acc pe' = SymbolicPartialSum (matrixName (regs_X pe)) (matrixName (regs_W pe))
                          (elem_i (regs_X pe)) (elem_j (regs_W pe)) (elem_j (regs_X pe) + 1)) \<and>
      (isConstantZero (regs_X pe) \<or> isConstantZero (regs_W pe) \<longrightarrow> regs_Acc pe' = regs_Acc pe) \<and>
      ((isMatrixElement (regs_X pe) \<and> isMatrixElement (regs_W pe)) \<or>
        isConstantZero (regs_X pe) \<or> isConstantZero (regs_W pe)))
   \<and> (isConstantZero (regs_X pe) \<or> isConstantZero (regs_W pe) \<longrightarrow>
        OutputStationaryPE_update pe X_in W_in
          = Inr \<lparr>regs_X = X_in, regs_W = W_in, regs_Acc = regs_Acc pe\<rparr>)
   \<and> (isMatrixElement (regs_X pe) \<and> isMatrixElement (regs_W pe)
        \<and> elem_j (regs_X pe) = elem_i (regs_W pe)
        \<and> ((isConstantZero (regs_Acc pe) \<and> elem_j (regs_X pe) = 0)
            \<or> regs_Acc pe = SymbolicPartialSum (matrixName (regs_X pe)) (matrixName (regs_W pe))
                               (elem_i (regs_X pe)) (elem_j (regs_W pe)) (elem_j (regs_X pe))) \<longrightarrow>
        OutputStationaryPE_update pe X_in W_in
          = Inr \<lparr>regs_X = X_in, regs_W = W_in,
                 regs_Acc = SymbolicPartialSum (matrixName (regs_X pe)) (matrixName (regs_W pe))
                              (elem_i (regs_X pe)) (elem_j (regs_W pe)) (elem_j (regs_X pe) + 1)\<rparr>)"
  using update_Inr_registers [of pe X_in W_in pe'] idle_update [of pe X_in W_in]
    fold_update [of pe X_in W_in]
  by blast

theorem PE_update_replaces_registers_witness:
  "OutputStationaryPE_update
      \<lparr>regs_X = SymbolicMatrixElement ''X'' 1 0, regs_W = SymbolicMatrixElement ''W'' 0 2,
       regs_Acc = ConstantInteger 0\<rparr> (SymbolicMatrixElement ''X'' 1 1) (ConstantInteger 0)
    = Inr \<lparr>regs_X = SymbolicMatrixElement ''X'' 1 1, regs_W = ConstantInteger 0,
           regs_Acc = SymbolicPartialSum ''X'' ''W'' 1 2 1\<rparr>
   \<and> OutputStationaryPE_update
      \<lparr>regs_X = SymbolicMatrixElement ''X'' 1 1, regs_W = ConstantInteger 0,
       regs_Acc = SymbolicPartialSum ''X'' ''W'' 1 2 1\<rparr> (ConstantInteger 0) Undefined
    = Inr \<lparr>regs_X = ConstantInteger 0, regs_W = Undefined,
           regs_Acc = SymbolicPartialSum ''X'' ''W'' 1 2 1\<rparr>
   \<and> OutputStationaryPE_update
      \<lparr>regs_X = SymbolicMatrixElement ''X'' 0 1, regs_W = SymbolicMatrixElement ''W'' 1 0,
       regs_Acc = SymbolicPartialSum ''X'' ''W'' 0 0 1\<rparr> (ConstantInteger 0) (ConstantInteger 0)
    = Inr \<lparr>regs_X = ConstantInteger 0, regs_W = ConstantInteger 0,
           regs_Acc = SymbolicPartialSum ''X'' ''W'' 0 0 2\<rparr>"
  using PE_update_replaces_registers [of
      "\<lparr>regs_X = SymbolicMatrixElement ''X'' 1 0, regs_W = SymbolicMatrixElement ''W'' 0 2,
       regs_Acc = ConstantInteger 0\<rparr>" "SymbolicMatrixElement ''X'' 1 1" "ConstantInteger 0"
      "\<lparr>regs_X = SymbolicMatrixElement ''X'' 1 1, regs_W = ConstantInteger 0,
           regs_Acc = SymbolicPartialSum ''X'' ''W'' 1 2 1\<rparr>"]
    PE_update_replaces_registers [of
      "\<lparr>regs_X = SymbolicMatrixElement ''X'' 1 1, regs_W = ConstantInteger 0,
       regs_Acc = SymbolicPartialSum ''X'' ''W'' 1 2 1\<rparr>" "ConstantInteger 0" Undefined
      "\<lparr>regs_X = ConstantInteger 0, regs_W = Undefined,
           regs_Acc = SymbolicPartialSum ''X'' ''W'' 1 2 1\<rparr>"]
    PE_update_replaces_registers [of
      "\<lparr>regs_X = SymbolicMatrixElement ''X'' 0 1, regs_W = SymbolicMatrixElement ''W'' 1 0,
       regs_Acc = SymbolicPartialSum ''X'' ''W'' 0 0 1\<rparr>" "ConstantInteger 0" "ConstantInteger 0"
      "\<lparr>regs_X = ConstantInteger 0, regs_W = ConstantInteger 0,
           regs_Acc = SymbolicPartialSum ''X'' ''W'' 0 0 2\<rparr>"]
  by simp

text \<open>
  C6: with registers that hold values, \<open>update\<close> throws the inconsistent-accumulation error
  exactly when the current \<open>X\<close> and \<open>W\<close> are both matrix elements and the consistency check
  fails: the column index \<open>k\<close> of \<open>X\<close> differs from the row index of \<open>W\<close>, or \<open>Acc\<close> is the zero
  constant and \<open>k\<close> is not 0, or \<open>Acc\<close> is a partial sum of count \<open>k\<close> whose names or indices
  differ from those of \<open>X\<close> and \<open>W\<close>, or \<open>Acc\<close> is anything else (a partial sum of another
  count included). It throws the invalid-operand-pair error exactly when \<open>X\<close> and \<open>W\<close> are not
  both matrix elements and neither is the zero constant.
\<close>

theorem PE_update_errors:
  assumes "isValue (regs_X pe)" "isValue (regs_W pe)" "isValue (regs_Acc pe)"
  shows "(OutputStationaryPE_update pe X_in W_in = Inl InconsistentAccumulation \<longleftrightarrow>
            isMatrixElement (regs_X pe) \<and> isMatrixElement (regs_W pe) \<and>
            (elem_j (regs_X pe) \<noteq> elem_i (regs_W pe)
             \<or> (isConstantZero (regs_Acc pe) \<and> elem_j (regs_X pe) \<noteq> 0)
             \<or> (isPartialSum (regs_Acc pe) \<and> sum_N (regs_Acc pe) = elem_j (regs_X pe) \<and>
                 (leftMatrixName (regs_Acc pe) \<noteq> matrixName (regs_X pe)
                  \<or> rightMatrixName (regs_Acc pe) \<noteq> matrixName (regs_W pe)
                  \<or> sum_i (regs_Acc pe) \<noteq> elem_i (regs_X pe)
                  \<or> sum_j (regs_Acc pe) \<noteq> elem_j (regs_W pe)))
             \<or> (\<not> isConstantZero (regs_Acc pe) \<and>
                 \<not> (isPartialSum (regs_Acc pe) \<and> sum_N (regs_Acc pe) = elem_j (regs_X pe))))) \<and>
         (OutputStationaryPE_update pe X_in W_in = Inl InvalidOperandPair \<longleftrightarrow>
            \<not> (isMatrixElement (regs_X pe) \<and> isMatrixElement (regs_W pe)) \<and>
            \<not> isConstantZero (regs_X pe) \<and> \<not> isConstantZero (regs_W pe))"
proof (cases "isMatrixElement (regs_X pe) \<and> isMatrixElement (regs_W pe)")
  case True
  then obtain xn xi xj wn wi wj where
    x: "regs_X pe = SymbolicMatrixElement xn xi xj" and w: "regs_W pe = SymbolicMatrixElement wn wi wj"
    by (cases "regs_X pe"; cases "regs_W pe") auto
  from assms(3) have "regs_Acc pe \<noteq> Undefined" by auto
  then show ?thesis
    using fold_nextAcc_Inl [of "regs_Acc pe" xn xi xj wn wi wj]
    by (simp add: update_Inl_iff nextAcc_cases x w)
next
  case False
  from assms have "regs_X pe \<noteq> Undefined" "regs_W pe \<noteq> Undefined" by auto
  with False show ?thesis
    by (auto simp: update_Inl_iff nextAcc_cases idle_nextAcc_def invalid_pair_def)
qed

theorem PE_update_errors_witness:
  "OutputStationaryPE_update
      \<lparr>regs_X = SymbolicMatrixElement ''X'' 0 1, regs_W = SymbolicMatrixElement ''W'' 1 0,
       regs_Acc = SymbolicPartialSum ''X'' ''W'' 0 0 2\<rparr> (ConstantInteger 0) (ConstantInteger 0)
     = Inl InconsistentAccumulation
   \<and> OutputStationaryPE_update
      \<lparr>regs_X = SymbolicMatrixElement ''X'' 0 1, regs_W = ConstantInteger 5,
       regs_Acc = ConstantInteger 0\<rparr> (ConstantInteger 0) (ConstantInteger 0)
     = Inl InvalidOperandPair"
  using PE_update_errors [of
      "\<lparr>regs_X = SymbolicMatrixElement ''X'' 0 1, regs_W = SymbolicMatrixElement ''W'' 1 0,
       regs_Acc = SymbolicPartialSum ''X'' ''W'' 0 0 2\<rparr>" "ConstantInteger 0" "ConstantInteger 0"]
    PE_update_errors [of
      "\<lparr>regs_X = SymbolicMatrixElement ''X'' 0 1, regs_W = ConstantInteger 5,
       regs_Acc = ConstantInteger 0\<rparr>" "ConstantInteger 0" "ConstantInteger 0"]
  by simp

section \<open>Properties of the controller\<close>

text \<open>
  C3: for array width \<open>N\<close>, stream length \<open>L\<close> and \<open>drainStart = (2N - 1) + L\<close>, the signals at
  cycle count \<open>c\<close> are: both read-enables are \<open>c < L\<close> with read address \<open>c\<close>; the
  write-enable is \<open>drainStart \<le> c < drainStart + N\<close> with write address
  \<open>(N - 1) - (c - drainStart)\<close>, which is \<open>N - 1\<close> at \<open>drainStart\<close> and 0 at
  \<open>drainStart + N - 1\<close>; the evict flag is \<open>c \<ge> drainStart\<close>; and \<open>update\<close> adds one to the
  cycle count and changes nothing else.
\<close>

theorem controller_signals:
  "X_memReadEnable (produceControlSignals
        \<lparr>ctl_arrayWidth = N, ctl_streamLength = L, cycleCount = c\<rparr>) = (c < L)
   \<and> X_memReadAddress (produceControlSignals
        \<lparr>ctl_arrayWidth = N, ctl_streamLength = L, cycleCount = c\<rparr>) = c
   \<and> W_memReadEnable (produceControlSignals
        \<lparr>ctl_arrayWidth = N, ctl_streamLength = L, cycleCount = c\<rparr>) = (c < L)
   \<and> W_memReadAddress (produceControlSignals
        \<lparr>ctl_arrayWidth = N, ctl_streamLength = L, cycleCount = c\<rparr>) = c
   \<and> Y_memWriteEnable (produceControlSignals
        \<lparr>ctl_arrayWidth = N, ctl_streamLength = L, cycleCount = c\<rparr>)
       = ((2 * N - 1) + L \<le> c \<and> c < (2 * N - 1) + L + N)
   \<and> Y_memWriteAddress (produceControlSignals
        \<lparr>ctl_arrayWidth = N, ctl_streamLength = L, cycleCount = c\<rparr>)
       = (N - 1) - (c - ((2 * N - 1) + L))
   \<and> Y_memWriteAddress (produceControlSignals
        \<lparr>ctl_arrayWidth = N, ctl_streamLength = L, cycleCount = (2 * N - 1) + L\<rparr>) = N - 1
   \<and> Y_memWriteAddress (produceControlSignals
        \<lparr>ctl_arrayWidth = N, ctl_streamLength = L, cycleCount = (2 * N - 1) + L + N - 1\<rparr>) = 0
   \<and> movesOutputDown (produceControlSignals
        \<lparr>ctl_arrayWidth = N, ctl_streamLength = L, cycleCount = c\<rparr>) = (c \<ge> (2 * N - 1) + L)
   \<and> OutputStationaryController_update
        \<lparr>ctl_arrayWidth = N, ctl_streamLength = L, cycleCount = c\<rparr>
       = \<lparr>ctl_arrayWidth = N, ctl_streamLength = L, cycleCount = c + 1\<rparr>"
  by (simp add: produceControlSignals_def OutputStationaryController_update_def Let_def)

section \<open>Properties of the constructor\<close>

lemma MatrixRAM_new_not_DimensionMismatch:
  "MatrixRAM_new r c v t \<noteq> Inl DimensionMismatch"
  by (cases v) (simp_all add: MatrixRAM_new_def Let_def)

lemma bindE_Inl_iff:
  "bindE m f = Inl e \<longleftrightarrow> m = Inl e \<or> (\<exists>x. m = Inr x \<and> f x = Inl e)"
  by (cases m) (simp_all add: bindE_def)

lemma bindE_Inr_iff:
  "bindE m f = Inr y \<longleftrightarrow> (\<exists>x. m = Inr x \<and> f x = Inr y)"
  by (cases m) (simp_all add: bindE_def)

text \<open>
  C7: the constructor of the top level throws the dimension-mismatch error, and so returns no
  state, if and only if \<open>X_col_count\<close> differs from \<open>W_row_count\<close>, or \<open>X_row_count\<close> differs
  from \<open>systolic_row_count\<close>, or \<open>W_col_count\<close> differs from \<open>systolic_col_count\<close>, or the array
  is not square. The error is the result of the constructor itself: without a state there is
  nothing to simulate.
\<close>

theorem constructor_DimensionMismatch:
  "OutputStationaryTopLevel_new X_row_count X_col_count W_row_count W_col_count
       systolic_row_count systolic_col_count = Inl DimensionMismatch
   \<longleftrightarrow> X_col_count \<noteq> W_row_count
       \<or> (X_row_count \<noteq> systolic_row_count \<or> W_col_count \<noteq> systolic_col_count)
       \<or> systolic_row_count \<noteq> systolic_col_count"
  by (simp add: OutputStationaryTopLevel_new_def Let_def bindE_Inl_iff
      MatrixRAM_new_not_DimensionMismatch DelayRegisterTriangle_new_def
      OutputStationarySystolicArray_new_def)

theorem constructor_DimensionMismatch_witness:
  "OutputStationaryTopLevel_new 2 3 2 2 2 2 = Inl DimensionMismatch
   \<and> OutputStationaryTopLevel_new 2 3 3 2 2 2 \<noteq> Inl DimensionMismatch"
  using constructor_DimensionMismatch [of 2 3 2 2 2 2]
    constructor_DimensionMismatch [of 2 3 3 2 2 2]
  by simp

section \<open>Lemmas on jagged arrays\<close>

lemma length_jag [simp]: "length (jag R C f) = R"
  by (simp add: jag_def)

lemma nth_jag: "i < R \<Longrightarrow> jag R C f ! i = map (f i) [0..<C i]"
  by (simp add: jag_def)

lemma nth_nth_jag [simp]: "i < R \<Longrightarrow> j < C i \<Longrightarrow> jag R C f ! i ! j = f i j"
  by (simp add: jag_def)

lemma jag_cong: "(\<And>i j. i < R \<Longrightarrow> j < C i \<Longrightarrow> f i j = g i j) \<Longrightarrow> jag R C f = jag R C g"
  by (simp add: jag_def)

lemma map_upt_update:
  "(map f [0..<n])[i := v] = map (f(i := v)) [0..<n]"
  by (rule nth_equalityI) (auto simp: nth_list_update)

lemma jag_update:
  assumes "i < R"
  shows "(jag R C f)[i := (jag R C f ! i)[j := v]]
         = jag R C (\<lambda>i' j'. if i' = i \<and> j' = j then v else f i' j')"
proof (rule nth_equalityI)
  show "length ((jag R C f)[i := (jag R C f ! i)[j := v]])
        = length (jag R C (\<lambda>i' j'. if i' = i \<and> j' = j then v else f i' j'))" by simp
next
  fix r assume "r < length ((jag R C f)[i := (jag R C f ! i)[j := v]])"
  then have r: "r < R" by simp
  show "(jag R C f)[i := (jag R C f ! i)[j := v]] ! r
        = jag R C (\<lambda>i' j'. if i' = i \<and> j' = j then v else f i' j') ! r"
  proof (cases "r = i")
    case True
    with assms show ?thesis by (simp add: nth_jag map_upt_update fun_upd_def)
  next
    case False
    with r assms show ?thesis by (simp add: nth_jag)
  qed
qed

lemma jag_of_list:
  assumes "length a = R" and "\<And>i. i < R \<Longrightarrow> length (a ! i) = C i"
  shows "a = jag R C (\<lambda>i j. a ! i ! j)"
proof (rule nth_equalityI)
  show "length a = length (jag R C (\<lambda>i j. a ! i ! j))" using assms by simp
next
  fix i assume "i < length a"
  with assms have i: "i < R" by simp
  have "a ! i = map ((!) (a ! i)) [0..<length (a ! i)]" by (simp add: map_nth)
  with i assms(2) show "a ! i = jag R C (\<lambda>i j. a ! i ! j) ! i" by (simp add: nth_jag)
qed

section \<open>Properties of the systolic array\<close>

lemma move_Acc_down_grid:
  "i < N \<Longrightarrow> j < N \<Longrightarrow>
   move_Acc_down j i (grid N f)
   = grid N (\<lambda>i' j'. if i' = i \<and> j' = j then (f i j)\<lparr>regs_Acc := regs_Acc (f (i - Suc 0) j)\<rparr>
                       else f i' j')"
  by (simp add: move_Acc_down_def jag_update)

lemma fold_move_Acc_down_grid:
  "n \<le> N \<Longrightarrow> j < N \<Longrightarrow>
   fold (move_Acc_down j) (rev [Suc 0..<n]) (grid N f)
   = grid N (\<lambda>i' j'. if j' = j \<and> Suc 0 \<le> i' \<and> i' < n
                       then (f i' j')\<lparr>regs_Acc := regs_Acc (f (i' - Suc 0) j')\<rparr> else f i' j')"
proof (induction n arbitrary: f)
  case 0
  then show ?case by (simp cong: jag_cong)
next
  case (Suc n)
  show ?case
  proof (cases "n = 0")
    case True
    then show ?thesis by (auto intro!: jag_cong)
  next
    case False
    then have "rev [Suc 0..<Suc n] = n # rev [Suc 0..<n]" by simp
    moreover from Suc.prems have "n < N" "n \<le> N" by simp_all
    ultimately show ?thesis
      using Suc.prems False
      by (simp add: move_Acc_down_grid Suc.IH) (auto intro!: jag_cong)
  qed
qed

lemma evict_column_grid:
  assumes "j < N"
  shows "evict_column N j (grid N f)
   = grid N (\<lambda>i' j'. if j' = j
                       then (f i' j')\<lparr>regs_Acc := (if i' = 0 then ConstantInteger 0
                                                     else regs_Acc (f (i' - 1) j'))\<rparr>
                       else f i' j')"
proof -
  from assms have "0 < N" by simp
  with assms show ?thesis
    by (simp add: evict_column_def clear_Acc_def fold_move_Acc_down_grid jag_update)
       (auto intro!: jag_cong)
qed

lemma fold_evict_column_grid:
  "m \<le> N \<Longrightarrow>
   fold (evict_column N) [0..<m] (grid N f)
   = grid N (\<lambda>i' j'. if j' < m
                       then (f i' j')\<lparr>regs_Acc := (if i' = 0 then ConstantInteger 0
                                                     else regs_Acc (f (i' - 1) j'))\<rparr>
                       else f i' j')"
proof (induction m)
  case 0
  then show ?case by simp
next
  case (Suc m)
  then show ?case
    by (simp add: evict_column_grid) (auto intro!: jag_cong)
qed

lemma wf_array_grid:
  "wf_array sa \<Longrightarrow> sa_array sa = grid (sa_N sa) (\<lambda>i j. sa_array sa ! i ! j)"
  by (rule jag_of_list) (auto simp: wf_array_def list_all_length)

lemma update_evict_grid:
  "OutputStationarySystolicArray_update \<lparr>sa_N = N, sa_array = grid N f\<rparr> ix iw True
   = Inr \<lparr>sa_N = N, sa_array = grid N (\<lambda>i j. (f i j)\<lparr>regs_Acc := (if i = 0 then ConstantInteger 0
                                                     else regs_Acc (f (i - 1) j))\<rparr>)\<rparr>"
  by (simp add: OutputStationarySystolicArray_update_def fold_evict_column_grid cong: jag_cong)

lemma map_const_upt: "map (\<lambda>i. c) [0..<n] = replicate n c"
  by (simp add: map_replicate_const)

lemma wf_array_jag: "wf_array \<lparr>sa_N = N, sa_array = grid N f\<rparr>"
  by (simp add: wf_array_def list_all_length nth_jag)

text \<open>
  C5: for a systolic array of size \<open>N\<close> as the constructor shapes it. With the evict control
  set, \<open>produce_output\<close> returns the \<open>Acc\<close> registers of row \<open>N - 1\<close>, one per column, and
  \<open>update\<close> does not look at the input vectors, cannot throw, puts into the \<open>Acc\<close> of row
  \<open>r\<close> the previous \<open>Acc\<close> of row \<open>r - 1\<close> for every \<open>r\<close> from 1 to \<open>N - 1\<close>, resets
  every \<open>Acc\<close> of row 0 to the zero constant and leaves the \<open>X\<close> and \<open>W\<close> registers alone.
  With the control clear, \<open>produce_output\<close> returns \<open>N\<close> zero constants.
\<close>

theorem systolic_array_evict:
  assumes "wf_array sa"
  shows "OutputStationarySystolicArray_produce_output sa True
           = map (\<lambda>j. regs_Acc (sa_array sa ! (sa_N sa - 1) ! j)) [0..<sa_N sa]
       \<and> OutputStationarySystolicArray_produce_output sa False
           = replicate (sa_N sa) (ConstantInteger 0)
       \<and> OutputStationarySystolicArray_update sa inputs_X inputs_W True
           = OutputStationarySystolicArray_update sa [] [] True
       \<and> (\<exists>sa'. OutputStationarySystolicArray_update sa inputs_X inputs_W True = Inr sa'
             \<and> sa_N sa' = sa_N sa \<and> wf_array sa'
             \<and> (\<forall>r < sa_N sa. \<forall>j < sa_N sa.
                   regs_Acc (sa_array sa' ! r ! j)
                     = (if r = 0 then ConstantInteger 0 else regs_Acc (sa_array sa ! (r - 1) ! j))
                   \<and> regs_X (sa_array sa' ! r ! j) = regs_X (sa_array sa ! r ! j)
                   \<and> regs_W (sa_array sa' ! r ! j) = regs_W (sa_array sa ! r ! j)))"
proof -
  define N where "N = sa_N sa"
  define f where "f = (\<lambda>i j. sa_array sa ! i ! j)"
  from assms have sa: "sa = \<lparr>sa_N = N, sa_array = grid N f\<rparr>"
    using wf_array_grid [of sa] by (simp add: N_def f_def)
  have out: "OutputStationarySystolicArray_produce_output sa False
           = replicate (sa_N sa) (ConstantInteger 0)"
    by (simp add: OutputStationarySystolicArray_produce_output_def map_replicate_const)
  have upd: "OutputStationarySystolicArray_update sa ix iw True
      = Inr \<lparr>sa_N = N, sa_array = grid N (\<lambda>i j. (f i j)\<lparr>regs_Acc := (if i = 0 then ConstantInteger 0
                                                     else regs_Acc (f (i - 1) j))\<rparr>)\<rparr>" for ix iw
    by (simp only: sa update_evict_grid)
  show ?thesis
    unfolding upd
    by (simp add: out OutputStationarySystolicArray_produce_output_def wf_array_jag)
       (simp add: sa map_const_upt)
qed

lemma evict_example:
  "OutputStationarySystolicArray_update
     \<lparr>sa_N = 2, sa_array =
        [[\<lparr>regs_X = ConstantInteger 0, regs_W = ConstantInteger 0, regs_Acc = SymbolicPartialSum ''X'' ''W'' 0 0 1\<rparr>,
          \<lparr>regs_X = ConstantInteger 0, regs_W = ConstantInteger 0, regs_Acc = SymbolicPartialSum ''X'' ''W'' 0 1 1\<rparr>],
         [\<lparr>regs_X = ConstantInteger 0, regs_W = ConstantInteger 0, regs_Acc = SymbolicPartialSum ''X'' ''W'' 1 0 1\<rparr>,
          \<lparr>regs_X = ConstantInteger 0, regs_W = ConstantInteger 0, regs_Acc = SymbolicPartialSum ''X'' ''W'' 1 1 1\<rparr>]]\<rparr>
     [Undefined] [] True
   = Inr \<lparr>sa_N = 2, sa_array =
        [[\<lparr>regs_X = ConstantInteger 0, regs_W = ConstantInteger 0, regs_Acc = ConstantInteger 0\<rparr>,
          \<lparr>regs_X = ConstantInteger 0, regs_W = ConstantInteger 0, regs_Acc = ConstantInteger 0\<rparr>],
         [\<lparr>regs_X = ConstantInteger 0, regs_W = ConstantInteger 0, regs_Acc = SymbolicPartialSum ''X'' ''W'' 0 0 1\<rparr>,
          \<lparr>regs_X = ConstantInteger 0, regs_W = ConstantInteger 0, regs_Acc = SymbolicPartialSum ''X'' ''W'' 0 1 1\<rparr>]]\<rparr>"
  by code_simp

theorem systolic_array_evict_witness:
  "wf_array \<lparr>sa_N = 2, sa_array =
        [[\<lparr>regs_X = ConstantInteger 0, regs_W = ConstantInteger 0, regs_Acc = SymbolicPartialSum ''X'' ''W'' 0 0 1\<rparr>,
          \<lparr>regs_X = ConstantInteger 0, regs_W = ConstantInteger 0, regs_Acc = SymbolicPartialSum ''X'' ''W'' 0 1 1\<rparr>],
         [\<lparr>regs_X = ConstantInteger 0, regs_W = ConstantInteger 0, regs_Acc = SymbolicPartialSum ''X'' ''W'' 1 0 1\<rparr>,
          \<lparr>regs_X = ConstantInteger 0, regs_W = ConstantInteger 0, regs_Acc = SymbolicPartialSum ''X'' ''W'' 1 1 1\<rparr>]]\<rparr>
   \<and> OutputStationarySystolicArray_produce_output \<lparr>sa_N = 2, sa_array =
        [[\<lparr>regs_X = ConstantInteger 0, regs_W = ConstantInteger 0, regs_Acc = SymbolicPartialSum ''X'' ''W'' 0 0 1\<rparr>,
          \<lparr>regs_X = ConstantInteger 0, regs_W = ConstantInteger 0, regs_Acc = SymbolicPartialSum ''X'' ''W'' 0 1 1\<rparr>],
         [\<lparr>regs_X = ConstantInteger 0, regs_W = ConstantInteger 0, regs_Acc = SymbolicPartialSum ''X'' ''W'' 1 0 1\<rparr>,
          \<lparr>regs_X = ConstantInteger 0, regs_W = ConstantInteger 0, regs_Acc = SymbolicPartialSum ''X'' ''W'' 1 1 1\<rparr>]]\<rparr> True
     = [SymbolicPartialSum ''X'' ''W'' 1 0 1, SymbolicPartialSum ''X'' ''W'' 1 1 1]
   \<and> OutputStationarySystolicArray_update \<lparr>sa_N = 2, sa_array =
        [[\<lparr>regs_X = ConstantInteger 0, regs_W = ConstantInteger 0, regs_Acc = SymbolicPartialSum ''X'' ''W'' 0 0 1\<rparr>,
          \<lparr>regs_X = ConstantInteger 0, regs_W = ConstantInteger 0, regs_Acc = SymbolicPartialSum ''X'' ''W'' 0 1 1\<rparr>],
         [\<lparr>regs_X = ConstantInteger 0, regs_W = ConstantInteger 0, regs_Acc = SymbolicPartialSum ''X'' ''W'' 1 0 1\<rparr>,
          \<lparr>regs_X = ConstantInteger 0, regs_W = ConstantInteger 0, regs_Acc = SymbolicPartialSum ''X'' ''W'' 1 1 1\<rparr>]]\<rparr>
        [Undefined] [] True
     = Inr \<lparr>sa_N = 2, sa_array =
        [[\<lparr>regs_X = ConstantInteger 0, regs_W = ConstantInteger 0, regs_Acc = ConstantInteger 0\<rparr>,
          \<lparr>regs_X = ConstantInteger 0, regs_W = ConstantInteger 0, regs_Acc = ConstantInteger 0\<rparr>],
         [\<lparr>regs_X = ConstantInteger 0, regs_W = ConstantInteger 0, regs_Acc = SymbolicPartialSum ''X'' ''W'' 0 0 1\<rparr>,
          \<lparr>regs_X = ConstantInteger 0, regs_W = ConstantInteger 0, regs_Acc = SymbolicPartialSum ''X'' ''W'' 0 1 1\<rparr>]]\<rparr>"
proof -
  let ?sa = "\<lparr>sa_N = 2, sa_array =
        [[\<lparr>regs_X = ConstantInteger 0, regs_W = ConstantInteger 0, regs_Acc = SymbolicPartialSum ''X'' ''W'' 0 0 1\<rparr>,
          \<lparr>regs_X = ConstantInteger 0, regs_W = ConstantInteger 0, regs_Acc = SymbolicPartialSum ''X'' ''W'' 0 1 1\<rparr>],
         [\<lparr>regs_X = ConstantInteger 0, regs_W = ConstantInteger 0, regs_Acc = SymbolicPartialSum ''X'' ''W'' 1 0 1\<rparr>,
          \<lparr>regs_X = ConstantInteger 0, regs_W = ConstantInteger 0, regs_Acc = SymbolicPartialSum ''X'' ''W'' 1 1 1\<rparr>]]\<rparr>"
  have wf: "wf_array ?sa" by (simp add: wf_array_def)
  have up2: "[0..<2] = [0, 1]" by (simp add: upt_rec)
  from systolic_array_evict [OF wf, of "[Undefined]" "[]"]
  have "OutputStationarySystolicArray_produce_output ?sa True
          = [SymbolicPartialSum ''X'' ''W'' 1 0 1, SymbolicPartialSum ''X'' ''W'' 1 1 1]"
    by (simp add: up2)
  with wf show ?thesis using evict_example by simp
qed

lemma update_PE_at_grid:
  "i < N \<Longrightarrow> j < N \<Longrightarrow>
   update_PE_at ix iw i j (grid N h)
   = (case OutputStationaryPE_update (h i j)
             (if j = 0 then js_nth ix i else regs_X (h i (j - Suc 0)))
             (if i = 0 then js_nth iw j else regs_W (h (i - Suc 0) j)) of
        Inl e \<Rightarrow> Inl e
      | Inr pe \<Rightarrow> Inr (grid N (\<lambda>i' j'. if i' = i \<and> j' = j then pe else h i' j')))"
  by (simp add: update_PE_at_def jag_update split: sum.split)

lemma foldE_update_row:
  assumes "i < N"
  shows "n \<le> N \<Longrightarrow>
    (\<And>j. j < n \<Longrightarrow>
       OutputStationaryPE_update (h i j)
             (if j = 0 then js_nth ix i else regs_X (h i (j - Suc 0)))
             (if i = 0 then js_nth iw j else regs_W (h (i - Suc 0) j)) = Inr (g j)) \<Longrightarrow>
    foldE (update_PE_at ix iw i) (rev [0..<n]) (grid N h)
    = Inr (grid N (\<lambda>i' j'. if i' = i \<and> j' < n then g j' else h i' j'))"
proof (induction n arbitrary: h)
  case 0
  then show ?case by (simp cong: jag_cong)
next
  case (Suc n)
  let ?h' = "\<lambda>i' j'. if i' = i \<and> j' = n then g n else h i' j'"
  have step: "update_PE_at ix iw i n (grid N h) = Inr (grid N ?h')"
    using Suc.prems(1) assms Suc.prems(2) [of n] by (simp add: update_PE_at_grid)
  have "foldE (update_PE_at ix iw i) (rev [0..<n]) (grid N ?h')
        = Inr (grid N (\<lambda>i' j'. if i' = i \<and> j' < n then g j' else ?h' i' j'))"
  proof (rule Suc.IH)
    show "n \<le> N" using Suc.prems(1) by simp
  next
    fix j assume j: "j < n"
    then have "j \<noteq> n" "j - Suc 0 \<noteq> n" by arith+
    with j show "OutputStationaryPE_update (?h' i j)
             (if j = 0 then js_nth ix i else regs_X (?h' i (j - Suc 0)))
             (if i = 0 then js_nth iw j else regs_W (?h' (i - Suc 0) j)) = Inr (g j)"
      using Suc.prems(2) [of j] by (simp split: if_split_asm)
  qed
  moreover have "grid N (\<lambda>i' j'. if i' = i \<and> j' < n then g j' else ?h' i' j')
        = grid N (\<lambda>i' j'. if i' = i \<and> j' < Suc n then g j' else h i' j')"
    by (rule jag_cong) (auto simp: less_Suc_eq)
  ultimately show ?case by (simp add: step)
qed

lemma foldE_update_rows:
  "n \<le> N \<Longrightarrow>
    (\<And>i j. i < n \<Longrightarrow> j < N \<Longrightarrow>
       OutputStationaryPE_update (h i j)
             (if j = 0 then js_nth ix i else regs_X (h i (j - Suc 0)))
             (if i = 0 then js_nth iw j else regs_W (h (i - Suc 0) j)) = Inr (g i j)) \<Longrightarrow>
    foldE (\<lambda>i. foldE (update_PE_at ix iw i) (rev [0..<N])) (rev [0..<n]) (grid N h)
    = Inr (grid N (\<lambda>i' j'. if i' < n then g i' j' else h i' j'))"
proof (induction n arbitrary: h)
  case 0
  then show ?case by (simp cong: jag_cong)
next
  case (Suc n)
  let ?h' = "\<lambda>i' j'. if i' = n \<and> j' < N then g n j' else h i' j'"
  have step: "foldE (update_PE_at ix iw n) (rev [0..<N]) (grid N h) = Inr (grid N ?h')"
    using Suc.prems(1) Suc.prems(2) [of n]
    by (intro foldE_update_row) simp_all
  have "foldE (\<lambda>i. foldE (update_PE_at ix iw i) (rev [0..<N])) (rev [0..<n]) (grid N ?h')
        = Inr (grid N (\<lambda>i' j'. if i' < n then g i' j' else ?h' i' j'))"
  proof (rule Suc.IH)
    show "n \<le> N" using Suc.prems(1) by simp
  next
    fix i j assume ij: "i < n" "j < N"
    then have "i \<noteq> n" "i - Suc 0 \<noteq> n" by arith+
    with ij show "OutputStationaryPE_update (?h' i j)
             (if j = 0 then js_nth ix i else regs_X (?h' i (j - Suc 0)))
             (if i = 0 then js_nth iw j else regs_W (?h' (i - Suc 0) j)) = Inr (g i j)"
      using Suc.prems(2) [of i j] by (simp split: if_split_asm)
  qed
  moreover have "grid N (\<lambda>i' j'. if i' < n then g i' j' else ?h' i' j')
        = grid N (\<lambda>i' j'. if i' < Suc n then g i' j' else h i' j')"
    by (rule jag_cong) (auto simp: less_Suc_eq)
  ultimately show ?case by (simp add: step)
qed

lemma update_flow_grid:
  assumes "\<And>i j. i < N \<Longrightarrow> j < N \<Longrightarrow>
       OutputStationaryPE_update (f i j)
             (if j = 0 then js_nth ix i else regs_X (f i (j - Suc 0)))
             (if i = 0 then js_nth iw j else regs_W (f (i - Suc 0) j)) = Inr (g i j)"
  shows "OutputStationarySystolicArray_update \<lparr>sa_N = N, sa_array = grid N f\<rparr> ix iw False
         = Inr \<lparr>sa_N = N, sa_array = grid N g\<rparr>"
proof -
  have "foldE (\<lambda>i. foldE (update_PE_at ix iw i) (rev [0..<N])) (rev [0..<N]) (grid N f)
    = Inr (grid N (\<lambda>i' j'. if i' < N then g i' j' else f i' j'))"
    using assms by (intro foldE_update_rows) simp_all
  moreover have "grid N (\<lambda>i' j'. if i' < N then g i' j' else f i' j') = grid N g"
    by (rule jag_cong) simp
  ultimately show ?thesis
    by (simp add: OutputStationarySystolicArray_update_def)
qed

section \<open>Properties of the delay registers\<close>

lemma shift_register_tri:
  "i < N \<Longrightarrow> j \<le> i \<Longrightarrow>
   shift_register i j (tri N f)
   = tri N (\<lambda>i' j'. if i' = i \<and> j' = j then f i (j - Suc 0) else f i' j')"
  by (simp add: shift_register_def jag_update)

lemma fold_shift_register_tri:
  "n \<le> Suc i \<Longrightarrow> i < N \<Longrightarrow>
   fold (shift_register i) (rev [Suc 0..<n]) (tri N f)
   = tri N (\<lambda>i' j'. if i' = i \<and> Suc 0 \<le> j' \<and> j' < n then f i (j' - Suc 0) else f i' j')"
proof (induction n arbitrary: f)
  case 0
  then show ?case by (simp cong: jag_cong)
next
  case (Suc n)
  show ?case
  proof (cases "n = 0")
    case True
    then show ?thesis by (auto intro!: jag_cong)
  next
    case False
    then have "rev [Suc 0..<Suc n] = n # rev [Suc 0..<n]" by simp
    moreover from Suc.prems have "n \<le> i" "n \<le> Suc i" by simp_all
    ultimately show ?thesis
      using Suc.prems False
      by (simp add: shift_register_tri Suc.IH) (auto intro!: jag_cong)
  qed
qed

lemma shift_chain_tri:
  assumes "i < N"
  shows "shift_chain input i (tri N f)
   = tri N (\<lambda>i' j'. if i' = i then (if j' = 0 then js_nth input (Suc i) else f i (j' - Suc 0))
                     else f i' j')"
proof -
  have "fold (shift_register i) (rev [1..<Suc i]) (tri N f)
   = tri N (\<lambda>i' j'. if i' = i \<and> Suc 0 \<le> j' \<and> j' < Suc i then f i (j' - Suc 0) else f i' j')"
    using fold_shift_register_tri [of "Suc i" i N f] assms by (simp del: upt_Suc)
  then show ?thesis
    using assms
    by (simp add: shift_chain_def Let_def jag_update del: upt_Suc) (auto intro!: jag_cong)
qed

lemma fold_shift_chain_tri:
  "m \<le> N \<Longrightarrow>
   fold (shift_chain input) [0..<m] (tri N f)
   = tri N (\<lambda>i' j'. if i' < m then (if j' = 0 then js_nth input (Suc i') else f i' (j' - Suc 0))
                     else f i' j')"
proof (induction m)
  case 0
  then show ?case by simp
next
  case (Suc m)
  then show ?case
    by (simp add: shift_chain_tri) (auto intro!: jag_cong)
qed

lemma DelayRegisterTriangle_update_tri:
  "DelayRegisterTriangle_update \<lparr>dt_N = N, registers = tri N f\<rparr> input
   = (if length input \<noteq> N + 1 then Inl LengthMismatch
      else Inr \<lparr>dt_N = N,
                registers = tri N (\<lambda>i j. if j = 0 then js_nth input (Suc i) else f i (j - Suc 0))\<rparr>)"
  by (simp add: DelayRegisterTriangle_update_def fold_shift_chain_tri cong: jag_cong)

lemma map_upt_Suc_shift: "map f [Suc 0..<Suc n] = map (\<lambda>i. f (Suc i)) [0..<n]"
  by (simp add: map_Suc_upt [symmetric] del: upt_Suc)

lemma DelayRegisterTriangle_produce_output_tri:
  "DelayRegisterTriangle_produce_output \<lparr>dt_N = N, registers = tri N f\<rparr> input
   = (if length input \<noteq> N + 1 then Inl LengthMismatch
      else Inr (js_nth input 0 # map (\<lambda>i. f i i) [0..<N]))"
  by (simp add: DelayRegisterTriangle_produce_output_def map_upt_Suc_shift del: upt_Suc)

lemma DelayRegisterTriangle_new_tri:
  "0 \<le> N \<Longrightarrow> DelayRegisterTriangle_new N
     = Inr \<lparr>dt_N = nat N, registers = tri (nat N) (\<lambda>i j. ConstantInteger 0)\<rparr>"
  by (simp add: DelayRegisterTriangle_new_def jag_def del: upt_Suc)

lemma foldE_append:
  "foldE f (xs @ ys) s = (case foldE f xs s of Inl e \<Rightarrow> Inl e | Inr s' \<Rightarrow> foldE f ys s')"
  by (induction xs arbitrary: s) (simp_all split: sum.split)

lemma delay_run:
  assumes "\<forall>v \<in> set ins. length v = N + 1"
  shows "foldE (\<lambda>input d. DelayRegisterTriangle_update d input) ins
           \<lparr>dt_N = N, registers = tri N (\<lambda>i j. ConstantInteger 0)\<rparr>
         = Inr \<lparr>dt_N = N,
                registers = tri N (\<lambda>i j. if j < length ins then ins ! (length ins - Suc j) ! Suc i
                                           else ConstantInteger 0)\<rparr>"
  using assms
proof (induction ins rule: rev_induct)
  case Nil
  then show ?case by simp
next
  case (snoc x xs)
  then have len: "length x = N + 1" and IH: "foldE (\<lambda>input d. DelayRegisterTriangle_update d input) xs
           \<lparr>dt_N = N, registers = tri N (\<lambda>i j. ConstantInteger 0)\<rparr>
         = Inr \<lparr>dt_N = N,
                registers = tri N (\<lambda>i j. if j < length xs then xs ! (length xs - Suc j) ! Suc i
                                           else ConstantInteger 0)\<rparr>"
    by simp_all
  have "tri N (\<lambda>i j. if j = 0 then js_nth x (Suc i)
                      else if j - Suc 0 < length xs then xs ! (length xs - Suc (j - Suc 0)) ! Suc i
                           else ConstantInteger 0)
      = tri N (\<lambda>i j. if j < length (xs @ [x]) then (xs @ [x]) ! (length (xs @ [x]) - Suc j) ! Suc i
                                           else ConstantInteger 0)"
    using len by (intro jag_cong) (auto simp: nth_append js_nth_def)
  then show ?case
    using len by (simp add: foldE_append IH DelayRegisterTriangle_update_tri)
qed

text \<open>
  C4: a delay triangle of size \<open>N\<close> is built and updated with any sequence \<open>ins\<close> of input
  vectors of length \<open>N + 1\<close>; no call throws. Then \<open>produce_output\<close> on a current input
  \<open>cur\<close> of length \<open>N + 1\<close> returns \<open>N + 1\<close> values: slot 0 is slot 0 of \<open>cur\<close>, and for
  every \<open>i\<close> from 1 to \<open>N\<close>, slot \<open>i\<close> is slot \<open>i\<close> of the input given to \<open>update\<close> \<open>i\<close>
  cycles earlier, or the zero constant when fewer than \<open>i\<close> updates have happened.
\<close>

theorem delay_triangle_delays:
  assumes "\<forall>v \<in> set ins. length v = N + 1" and "length cur = N + 1"
  shows "\<exists>d0 d out.
           DelayRegisterTriangle_new (int N) = Inr d0
         \<and> foldE (\<lambda>input d. DelayRegisterTriangle_update d input) ins d0 = Inr d
         \<and> DelayRegisterTriangle_produce_output d cur = Inr out
         \<and> length out = N + 1
         \<and> out ! 0 = cur ! 0
         \<and> (\<forall>i \<in> {1..N}. out ! i = (if i \<le> length ins then ins ! (length ins - i) ! i
                                      else ConstantInteger 0))"
proof -
  define g where "g = (\<lambda>i j. if j < length ins then ins ! (length ins - Suc j) ! Suc i
                              else ConstantInteger 0)"
  define d0 where "d0 = \<lparr>dt_N = N, registers = tri N (\<lambda>i j. ConstantInteger 0)\<rparr>"
  define d where "d = \<lparr>dt_N = N, registers = tri N g\<rparr>"
  define out where "out = js_nth cur 0 # map (\<lambda>i. g i i) [0..<N]"
  have new: "DelayRegisterTriangle_new (int N) = Inr d0"
    by (simp add: DelayRegisterTriangle_new_tri d0_def)
  have run: "foldE (\<lambda>input d. DelayRegisterTriangle_update d input) ins d0 = Inr d"
    unfolding d0_def d_def g_def by (rule delay_run [OF assms(1)])
  have prod: "DelayRegisterTriangle_produce_output d cur = Inr out"
    using assms(2) by (simp add: d_def out_def DelayRegisterTriangle_produce_output_tri)
  have len: "length out = N + 1" by (simp add: out_def)
  have zero: "out ! 0 = cur ! 0" using assms(2) by (simp add: out_def js_nth_def)
  have slots: "out ! i = (if i \<le> length ins then ins ! (length ins - i) ! i else ConstantInteger 0)"
    if "i \<in> {1..N}" for i
  proof -
    from that obtain k where k: "i = Suc k" "k < N" by (cases i) auto
    then have "out ! i = g k k" by (simp add: out_def)
    with k show ?thesis by (simp add: g_def Suc_le_eq)
  qed
  from new run prod len zero slots show ?thesis by blast
qed

theorem delay_triangle_delays_witness:
  "\<exists>d0 d. DelayRegisterTriangle_new 1 = Inr d0
     \<and> foldE (\<lambda>input d. DelayRegisterTriangle_update d input)
          [[SymbolicMatrixElement ''X'' 0 0, SymbolicMatrixElement ''X'' 1 0]] d0 = Inr d
     \<and> DelayRegisterTriangle_produce_output d
          [SymbolicMatrixElement ''X'' 0 1, SymbolicMatrixElement ''X'' 1 1]
        = Inr [SymbolicMatrixElement ''X'' 0 1, SymbolicMatrixElement ''X'' 1 0]"
proof -
  from delay_triangle_delays [of "[[SymbolicMatrixElement ''X'' 0 0, SymbolicMatrixElement ''X'' 1 0]]" 1
      "[SymbolicMatrixElement ''X'' 0 1, SymbolicMatrixElement ''X'' 1 1]"]
  obtain d0 d out where
    run: "DelayRegisterTriangle_new 1 = Inr d0"
      "foldE (\<lambda>input d. DelayRegisterTriangle_update d input)
          [[SymbolicMatrixElement ''X'' 0 0, SymbolicMatrixElement ''X'' 1 0]] d0 = Inr d"
      "DelayRegisterTriangle_produce_output d
          [SymbolicMatrixElement ''X'' 0 1, SymbolicMatrixElement ''X'' 1 1] = Inr out"
    and out: "length out = 2" "out ! 0 = SymbolicMatrixElement ''X'' 0 1"
      "out ! 1 = SymbolicMatrixElement ''X'' 1 0"
    by auto
  from out have "out = [SymbolicMatrixElement ''X'' 0 1, SymbolicMatrixElement ''X'' 1 0]"
    by (cases out; cases "tl out") auto
  with run show ?thesis by blast
qed

section \<open>What the top level leaves alone\<close>

lemma update_frame:
  assumes "OutputStationaryTopLevel_update t = Inr t'"
  shows "X_mem t' = X_mem t" "W_mem t' = W_mem t"
    "arrayWidth t' = arrayWidth t" "streamLength t' = streamLength t"
    "controller t' = OutputStationaryController_update (controller t)"
    "\<not> Y_memWriteEnable (produceControlSignals (controller t)) \<Longrightarrow> Y_mem t' = Y_mem t"
  using assms
  by (auto simp: OutputStationaryTopLevel_update_def Let_def bindE_Inr_iff)

lemma simulate_loop_frame:
  "simulate_loop n t = Inr (snaps, t') \<Longrightarrow> X_mem t' = X_mem t \<and> W_mem t' = W_mem t"
proof (induction n arbitrary: t snaps)
  case 0
  then show ?case by simp
next
  case (Suc n)
  then obtain t1 ds where "OutputStationaryTopLevel_update t = Inr t1"
    and "simulate_loop n t1 = Inr (ds, t')"
    by (auto simp: bindE_Inr_iff)
  with Suc.IH [of t1 ds] show ?case by (simp add: update_frame)
qed

text \<open>
  C10: an \<open>update\<close> of the top level that does not throw leaves the \<open>X\<close> memory and the \<open>W\<close>
  memory as they were, and leaves the \<open>Y\<close> memory as it was on every cycle whose
  \<open>Y_memWriteEnable\<close> is false; a whole run of \<open>simulate\<close> leaves the two input memories as
  they were. \<open>readRow\<close> returns the values it read and no memory.
\<close>

theorem input_memories_read_only:
  "(OutputStationaryTopLevel_update t = Inr t' \<longrightarrow>
      X_mem t' = X_mem t \<and> W_mem t' = W_mem t
      \<and> (\<not> Y_memWriteEnable (produceControlSignals (controller t)) \<longrightarrow> Y_mem t' = Y_mem t))
   \<and> (simulate t numCycles = Inr (snaps, t'') \<longrightarrow> X_mem t'' = X_mem t \<and> W_mem t'' = W_mem t)"
proof -
  have "X_mem t'' = X_mem t \<and> W_mem t'' = W_mem t" if "simulate t numCycles = Inr (snaps, t'')"
    using that simulate_loop_frame [of _ t snaps t'']
    by (auto simp: simulate_def Let_def split: if_splits)
  then show ?thesis by (auto simp: update_frame)
qed

lemma run_1_1:
  "(case OutputStationaryTopLevel_new 1 1 1 1 1 1 of
      Inl e \<Rightarrow> False
    | Inr t \<Rightarrow>
       (case OutputStationaryTopLevel_update t of
          Inl e \<Rightarrow> False
        | Inr t' \<Rightarrow>
           \<not> Y_memWriteEnable (produceControlSignals (controller t)) \<and>
           (case simulate t None of
              Inl e \<Rightarrow> False
            | Inr (snaps, t'') \<Rightarrow> cells (Y_mem t'') \<noteq> cells (Y_mem t))))"
  by code_simp

theorem input_memories_read_only_witness:
  "\<exists>t t' snaps t''.
      OutputStationaryTopLevel_new 1 1 1 1 1 1 = Inr t
    \<and> OutputStationaryTopLevel_update t = Inr t'
    \<and> \<not> Y_memWriteEnable (produceControlSignals (controller t))
    \<and> X_mem t' = X_mem t \<and> W_mem t' = W_mem t \<and> Y_mem t' = Y_mem t
    \<and> simulate t None = Inr (snaps, t'')
    \<and> X_mem t'' = X_mem t \<and> W_mem t'' = W_mem t \<and> cells (Y_mem t'') \<noteq> cells (Y_mem t)"
proof -
  from run_1_1 obtain t t' snaps t'' where
    run: "OutputStationaryTopLevel_new 1 1 1 1 1 1 = Inr t"
      "OutputStationaryTopLevel_update t = Inr t'"
      "\<not> Y_memWriteEnable (produceControlSignals (controller t))"
      "simulate t None = Inr (snaps, t'')"
      "cells (Y_mem t'') \<noteq> cells (Y_mem t)"
    by (auto split: sum.splits)
  with input_memories_read_only [of t t' None snaps t''] show ?thesis by blast
qed

section \<open>The run with two rows, two columns and a stream of two\<close>

lemma run_2_2:
  "(case OutputStationaryTopLevel_new 2 2 2 2 2 2 of
      Inl e \<Rightarrow> False
    | Inr t \<Rightarrow>
       (case simulate t None of
          Inl e \<Rightarrow> False
        | Inr (snaps, t') \<Rightarrow>
            length snaps = 8
          \<and> dump_systolicArray (regs (snaps ! 0))
              = replicate 2 (replicate 2 \<lparr>dump_X = ''0'', dump_W = ''0'', dump_Acc = ''0''\<rparr>)
          \<and> dump_X_delay (regs (snaps ! 0)) = [[''0'']]
          \<and> dump_W_delay (regs (snaps ! 0)) = [[''0'']]
          \<and> X_memReadEnable (controlSignals (snaps ! 0))
          \<and> X_memReadAddress (controlSignals (snaps ! 0)) = 0
          \<and> Y_memWriteEnable (controlSignals (snaps ! 5))
          \<and> Y_memWriteEnable (controlSignals (snaps ! 6))
          \<and> \<not> Y_memWriteEnable (controlSignals (snaps ! 7))
          \<and> mapE toString
               [SymbolicPartialSum ''X'' ''W'' 0 0 2, SymbolicPartialSum ''X'' ''W'' 0 1 2,
                SymbolicPartialSum ''X'' ''W'' 1 0 2, SymbolicPartialSum ''X'' ''W'' 1 1 2]
             = Inr (dump_Y_mem (regs (snaps ! 7)))))"
  by code_simp

text \<open>
  C8, as the claim states it, fails: in the run with \<open>X\<close> 2x2, \<open>W\<close> 2x2 and a 2x2 array,
  \<open>Y_memWriteEnable\<close> is true in snapshots 5 and 6 only, and false in snapshot 7.
\<close>

theorem snapshot_7_write_enable_counterexample:
  "map_sum id (map (Y_memWriteEnable \<circ> controlSignals) \<circ> fst) (generateOutput 2 2 2 2 2 2)
   = Inr [False, False, False, False, False, True, True, False]"
  by code_simp

text \<open>
  C8, amended: in the run with \<open>X\<close> 2x2, \<open>W\<close> 2x2 and a 2x2 array, \<open>simulate(null)\<close> returns
  exactly 8 snapshots. Snapshot 0 shows every register of every processing element and every
  delay register as the zero constant, with \<open>X_memReadEnable\<close> true and read address 0.
  \<open>Y_memWriteEnable\<close> is true in snapshots 5 and 6 and false in snapshot 7, and in snapshot 7
  the four cells of the output memory print the partial sums of count 2 for (0,0), (0,1),
  (1,0) and (1,1), in this order.
\<close>

theorem concrete_run_2_2:
  "\<exists>t snaps t'.
      OutputStationaryTopLevel_new 2 2 2 2 2 2 = Inr t
    \<and> simulate t None = Inr (snaps, t')
    \<and> length snaps = 8
    \<and> dump_systolicArray (regs (snaps ! 0))
        = [[\<lparr>dump_X = ''0'', dump_W = ''0'', dump_Acc = ''0''\<rparr>,
            \<lparr>dump_X = ''0'', dump_W = ''0'', dump_Acc = ''0''\<rparr>],
           [\<lparr>dump_X = ''0'', dump_W = ''0'', dump_Acc = ''0''\<rparr>,
            \<lparr>dump_X = ''0'', dump_W = ''0'', dump_Acc = ''0''\<rparr>]]
    \<and> dump_X_delay (regs (snaps ! 0)) = [[''0'']]
    \<and> dump_W_delay (regs (snaps ! 0)) = [[''0'']]
    \<and> X_memReadEnable (controlSignals (snaps ! 0))
    \<and> X_memReadAddress (controlSignals (snaps ! 0)) = 0
    \<and> Y_memWriteEnable (controlSignals (snaps ! 5))
    \<and> Y_memWriteEnable (controlSignals (snaps ! 6))
    \<and> \<not> Y_memWriteEnable (controlSignals (snaps ! 7))
    \<and> mapE toString
         [SymbolicPartialSum ''X'' ''W'' 0 0 2, SymbolicPartialSum ''X'' ''W'' 0 1 2,
          SymbolicPartialSum ''X'' ''W'' 1 0 2, SymbolicPartialSum ''X'' ''W'' 1 1 2]
       = Inr (dump_Y_mem (regs (snaps ! 7)))"
  using run_2_2 by (auto split: sum.splits simp: numeral_2_eq_2)

theorem concrete_run_2_2_witness:
  "\<exists>t snaps t'.
      OutputStationaryTopLevel_new 2 2 2 2 2 2 = Inr t
    \<and> simulate t None = Inr (snaps, t')
    \<and> length snaps = 8
    \<and> X_memReadEnable (controlSignals (snaps ! 0))
    \<and> Y_memWriteEnable (controlSignals (snaps ! 6))
    \<and> \<not> Y_memWriteEnable (controlSignals (snaps ! 7))"
  using concrete_run_2_2 by blast

section \<open>Lemmas on the memories\<close>

lemma fold_update_offset:
  "fold (\<lambda>j cs. cs[s + j := v j]) [0..<m] (map f [0..<n])
   = map (\<lambda>k. if s \<le> k \<and> k < s + m then v (k - s) else f k) [0..<n]"
proof (induction m)
  case 0
  then show ?case by auto
next
  case (Suc m)
  have "(\<lambda>k. if s \<le> k \<and> k < s + m then v (k - s) else f k)(s + m := v m)
        = (\<lambda>k. if s \<le> k \<and> k < s + Suc m then v (k - s) else f k)"
    by (rule ext) auto
  with Suc show ?case by (simp add: map_upt_update)
qed

lemma replicate_as_map: "replicate n x = map (\<lambda>k. x) [0..<n]"
  by (simp add: map_replicate_const)

lemma fold_fill_rows:
  "r \<le> R \<Longrightarrow>
   fold (\<lambda>i. fold (\<lambda>j cs. cs[i * C + j := g i j]) [0..<C]) [0..<r] (map f [0..<R * C])
   = map (\<lambda>k. if k < r * C then g (k div C) (k mod C) else f k) [0..<R * C]"
proof (induction r)
  case 0
  then show ?case by simp
next
  case (Suc r)
  have "(if r * C \<le> k \<and> k < r * C + C then g r (k - r * C)
         else if k < r * C then g (k div C) (k mod C) else f k)
        = (if k < Suc r * C then g (k div C) (k mod C) else f k)" for k
  proof (cases "r * C \<le> k \<and> k < r * C + C")
    case True
    then have "k div C = r"
      by (intro div_nat_eqI) (simp_all add: mult.commute)
    moreover from this have "k mod C = k - r * C"
      by (simp add: modulo_nat_def)
    ultimately show ?thesis using True by simp
  next
    case False
    then show ?thesis by auto
  qed
  with Suc show ?case by (simp add: fold_update_offset)
qed

lemma nat_int_lin: "nat (int i * int C + int j) = i * C + j"
  by (simp add: nat_add_distrib nat_mult_distrib)

lemma MatrixRAM_new_generated:
  "MatrixRAM_new (int R) (int C) (SymbolicMatrixElement name i0 j0) transposed
   = Inr \<lparr>row_count = int R, col_count = int C,
          cells = map (\<lambda>k. generated_element name transposed (k div C) (k mod C)) [0..<R * C]\<rparr>"
proof -
  have "nat (int R * int C) = R * C" "\<not> int R * int C < 0"
    by (simp_all add: nat_mult_distrib flip: of_nat_mult)
  then show ?thesis
    using fold_fill_rows [of R R C "generated_element name transposed" "\<lambda>k. Undefined"]
    by (simp add: MatrixRAM_new_def Let_def nat_int_lin replicate_as_map)
qed

lemma MatrixRAM_new_constant:
  "MatrixRAM_new (int R) (int C) (ConstantInteger v) transposed
   = Inr \<lparr>row_count = int R, col_count = int C,
          cells = map (\<lambda>k. ConstantInteger v) [0..<R * C]\<rparr>"
proof -
  have "nat (int R * int C) = R * C" "\<not> int R * int C < 0"
    by (simp_all add: nat_mult_distrib flip: of_nat_mult)
  then show ?thesis
    using fold_update_offset [of 0 "\<lambda>j. ConstantInteger v" "R * C" "\<lambda>k. Undefined" "R * C"]
    by (simp add: MatrixRAM_new_def Let_def replicate_as_map)
qed

lemma readRow_closed:
  assumes "r < R"
  shows "readRow \<lparr>row_count = int R, col_count = int C, cells = map f [0..<R * C]\<rparr> (int r) 0 (int C)
         = Inr (map (\<lambda>j. f (r * C + j)) [0..<C])"
proof -
  from assms have le: "r * C + C \<le> R * C"
    using mult_le_mono1 [of "Suc r" R C] by simp
  then have le': "r * C \<le> R * C" by arith
  have "take C (drop (r * C) (map f [0..<R * C])) = map f [r * C..<r * C + C]"
    using le by (simp add: take_map drop_map)
  also have "\<dots> = map (\<lambda>j. f (r * C + j)) [0..<C]"
    by (rule nth_equalityI) simp_all
  finally have "take C (drop (r * C) (map f [0..<R * C])) = map (\<lambda>j. f (r * C + j)) [0..<C]" .
  moreover have "js_slice (map f [0..<R * C]) (int r * int C) (int r * int C + int C)
        = take C (drop (r * C) (map f [0..<R * C]))"
  proof -
    have a: "min (int r * int C) (int R * int C) = int (r * C)"
      using le' by (simp add: min_def flip: of_nat_mult)
    have b: "min (int r * int C + int C) (int R * int C) = int (r * C + C)"
      using le by (simp add: min_def flip: of_nat_mult of_nat_add)
    have c: "\<not> int r * int C + int C < 0" "\<not> int r * int C < 0"
      by (simp_all flip: of_nat_mult of_nat_add)
    have d: "nat (int r * int C) = r * C"
      by (simp add: nat_mult_distrib)
    show ?thesis
      by (simp add: js_slice_def Let_def a b c d)
  qed
  ultimately show ?thesis
    using assms by (simp add: readRow_def checkPosition_def)
qed

lemma writeRow_closed:
  assumes "r < R"
  shows "writeRow \<lparr>row_count = int R, col_count = int C, cells = map f [0..<n]\<rparr> (int r) 0 (int C) row
         = Inr \<lparr>row_count = int R, col_count = int C,
                cells = map (\<lambda>k. if r * C \<le> k \<and> k < r * C + C then js_nth row (k - r * C) else f k)
                          [0..<n]\<rparr>"
proof -
  have "(\<lambda>i cs. cs[nat (int r * int C + int i) := js_nth row i])
        = (\<lambda>i cs. cs[r * C + i := js_nth row i])"
    by (simp add: nat_int_lin)
  then show ?thesis
    using assms fold_update_offset [of "r * C" "js_nth row" C f n]
    by (simp add: writeRow_def checkPosition_def)
qed

section \<open>One cycle of the top level on the closed form\<close>

lemma nextAcc_pe_flow:
  "nextAcc (pe_flow L m i j) = Inr (psum i j (min (int L) (m + 1)))"
proof -
  consider "m < 0" | "0 \<le> m" "m < int L" | "int L \<le> m" by linarith
  then show ?thesis
  proof cases
    case 1
    then show ?thesis
      by (simp add: nextAcc_def pe_flow_def xel_def wel_def psum_def idle_nextAcc_def)
  next
    case 2
    then show ?thesis
      by (simp add: nextAcc_def pe_flow_def xel_def wel_def psum_def fold_nextAcc_def Let_def min_def)
  next
    case 3
    then show ?thesis
      by (simp add: nextAcc_def pe_flow_def xel_def wel_def psum_def idle_nextAcc_def min_def)
  qed
qed

lemma update_pe_flow:
  "OutputStationaryPE_update (pe_flow L m i j) (xel L i (m + 1)) (wel L (m + 1) j)
   = Inr (pe_flow L (m + 1) i j)"
  by (simp add: OutputStationaryPE_update_def nextAcc_pe_flow) (simp add: pe_flow_def)

lemma regs_pe_flow [simp]:
  "regs_X (pe_flow L m i j) = xel L i m" "regs_W (pe_flow L m i j) = wel L m j"
  "regs_Acc (pe_flow L m i j) = psum i j (min (int L) m)"
  by (simp_all add: pe_flow_def)

lemma flow_step_pe:
  assumes "t < drainStart N L" "i < N" "j < N"
  shows "OutputStationaryPE_update (pe_at N L t i j)
           (if j = 0 then js_nth (map (\<lambda>r. xel L r (int t - int r)) [0..<N]) i
            else regs_X (pe_at N L t i (j - Suc 0)))
           (if i = 0 then js_nth (map (\<lambda>c. wel L (int t - int c) c) [0..<N]) j
            else regs_W (pe_at N L t (i - Suc 0) j))
         = Inr (pe_at N L (Suc t) i j)"
proof -
  let ?m = "int t - 1 - int i - int j"
  have x: "(if j = 0 then js_nth (map (\<lambda>r. xel L r (int t - int r)) [0..<N]) i
            else regs_X (pe_at N L t i (j - Suc 0))) = xel L i (?m + 1)"
    using assms by (auto simp: js_nth_def pe_at_def algebra_simps)
  have w: "(if i = 0 then js_nth (map (\<lambda>c. wel L (int t - int c) c) [0..<N]) j
            else regs_W (pe_at N L t (i - Suc 0) j)) = wel L (?m + 1) j"
    using assms by (auto simp: js_nth_def pe_at_def algebra_simps)
  have "pe_at N L t i j = pe_flow L ?m i j" "pe_at N L (Suc t) i j = pe_flow L (?m + 1) i j"
    using assms by (simp_all add: pe_at_def algebra_simps)
  then show ?thesis
    unfolding x w by (simp only: update_pe_flow)
qed

lemma array_flow_step:
  assumes "t < drainStart N L"
  shows "OutputStationarySystolicArray_update \<lparr>sa_N = N, sa_array = grid N (pe_at N L t)\<rparr>
           (map (\<lambda>r. xel L r (int t - int r)) [0..<N])
           (map (\<lambda>c. wel L (int t - int c) c) [0..<N]) False
         = Inr \<lparr>sa_N = N, sa_array = grid N (pe_at N L (Suc t))\<rparr>"
  by (rule update_flow_grid) (rule flow_step_pe [OF assms])

lemma drained_Acc:
  assumes "i < N" "j < N"
  shows "min (int L) (int (drainStart N L) - 1 - int i - int j) = int L"
  using assms by (simp add: drainStart_def min_def)

lemma evict_step_pe:
  assumes "drainStart N L \<le> t" "i < N" "j < N"
  shows "(pe_at N L t i j)\<lparr>regs_Acc := (if i = 0 then ConstantInteger 0
                                       else regs_Acc (pe_at N L t (i - 1) j))\<rparr>
         = pe_at N L (Suc t) i j"
proof (cases "t = drainStart N L")
  case True
  have "min (int L) (int (drainStart N L) - 1 - int (i - 1) - int j) = int L"
    using assms drained_Acc [of "i - 1" N j L] by simp
  with True show ?thesis
    by (simp add: pe_at_def pe_flow_def)
next
  case False
  with assms have "drainStart N L < t" by simp
  then show ?thesis
    by (auto simp: pe_at_def pe_flow_def Suc_diff_le)
qed

lemma array_evict_step:
  assumes "drainStart N L \<le> t"
  shows "OutputStationarySystolicArray_update \<lparr>sa_N = N, sa_array = grid N (pe_at N L t)\<rparr> ix iw True
         = Inr \<lparr>sa_N = N, sa_array = grid N (pe_at N L (Suc t))\<rparr>"
proof -
  have "grid N (\<lambda>i j. (pe_at N L t i j)\<lparr>regs_Acc := (if i = 0 then ConstantInteger 0
                                       else regs_Acc (pe_at N L t (i - 1) j))\<rparr>)
        = grid N (pe_at N L (Suc t))"
    by (rule jag_cong) (rule evict_step_pe [OF assms])
  then show ?thesis by (simp add: update_evict_grid)
qed

lemma bottom_row_Acc:
  assumes "drainStart N L \<le> t" "t < drainStart N L + N" "j < N"
  shows "regs_Acc (pe_at N L t (N - Suc 0) j) = psum (N - 1 - (t - drainStart N L)) j (int L)"
proof (cases "t = drainStart N L")
  case True
  with assms drained_Acc [of "N - 1" N j L] show ?thesis
    by (simp add: pe_at_def)
next
  case False
  with assms show ?thesis by (auto simp: pe_at_def)
qed

lemma array_output_evict:
  assumes "drainStart N L \<le> t" "t < drainStart N L + N"
  shows "OutputStationarySystolicArray_produce_output
           \<lparr>sa_N = N, sa_array = grid N (pe_at N L t)\<rparr> True
         = map (\<lambda>j. psum (N - 1 - (t - drainStart N L)) j (int L)) [0..<N]"
  using assms by (simp add: OutputStationarySystolicArray_produce_output_def bottom_row_Acc)

lemma map_upt_Suc0: "map f [0..<Suc n] = f 0 # map (\<lambda>i. f (Suc i)) [0..<n]"
  by (simp add: map_upt_Suc del: upt_Suc)

lemma X_delay_output:
  assumes "0 < N"
  shows "DelayRegisterTriangle_produce_output
           \<lparr>dt_N = N - 1, registers = tri (N - 1) (\<lambda>i j. xel L (Suc i) (int t - 1 - int j))\<rparr>
           (map (\<lambda>r. xel L r (int t)) [0..<N])
         = Inr (map (\<lambda>r. xel L r (int t - int r)) [0..<N])"
proof -
  from assms obtain n where N: "N = Suc n" by (cases N) auto
  show ?thesis
    unfolding N
    by (simp add: DelayRegisterTriangle_produce_output_tri js_nth_def map_upt_Suc0 algebra_simps
        del: upt_Suc)
qed

lemma W_delay_output:
  assumes "0 < N"
  shows "DelayRegisterTriangle_produce_output
           \<lparr>dt_N = N - 1, registers = tri (N - 1) (\<lambda>i j. wel L (int t - 1 - int j) (Suc i))\<rparr>
           (map (\<lambda>c. wel L (int t) c) [0..<N])
         = Inr (map (\<lambda>c. wel L (int t - int c) c) [0..<N])"
proof -
  from assms obtain n where N: "N = Suc n" by (cases N) auto
  show ?thesis
    unfolding N
    by (simp add: DelayRegisterTriangle_produce_output_tri js_nth_def map_upt_Suc0 algebra_simps
        del: upt_Suc)
qed

lemma X_delay_update:
  assumes "0 < N"
  shows "DelayRegisterTriangle_update
           \<lparr>dt_N = N - 1, registers = tri (N - 1) (\<lambda>i j. xel L (Suc i) (int t - 1 - int j))\<rparr>
           (map (\<lambda>r. xel L r (int t)) [0..<N])
         = Inr \<lparr>dt_N = N - 1,
                registers = tri (N - 1) (\<lambda>i j. xel L (Suc i) (int (Suc t) - 1 - int j))\<rparr>"
proof -
  have "tri (N - 1) (\<lambda>i j. if j = 0 then js_nth (map (\<lambda>r. xel L r (int t)) [0..<N]) (Suc i)
                            else xel L (Suc i) (int t - 1 - int (j - Suc 0)))
        = tri (N - 1) (\<lambda>i j. xel L (Suc i) (int (Suc t) - 1 - int j))"
    by (rule jag_cong) (auto simp: js_nth_def algebra_simps)
  with assms show ?thesis
    by (simp add: DelayRegisterTriangle_update_tri)
qed

lemma W_delay_update:
  assumes "0 < N"
  shows "DelayRegisterTriangle_update
           \<lparr>dt_N = N - 1, registers = tri (N - 1) (\<lambda>i j. wel L (int t - 1 - int j) (Suc i))\<rparr>
           (map (\<lambda>c. wel L (int t) c) [0..<N])
         = Inr \<lparr>dt_N = N - 1,
                registers = tri (N - 1) (\<lambda>i j. wel L (int (Suc t) - 1 - int j) (Suc i))\<rparr>"
proof -
  have "tri (N - 1) (\<lambda>i j. if j = 0 then js_nth (map (\<lambda>c. wel L (int t) c) [0..<N]) (Suc i)
                            else wel L (int t - 1 - int (j - Suc 0)) (Suc i))
        = tri (N - 1) (\<lambda>i j. wel L (int (Suc t) - 1 - int j) (Suc i))"
    by (rule jag_cong) (auto simp: js_nth_def algebra_simps)
  with assms show ?thesis
    by (simp add: DelayRegisterTriangle_update_tri)
qed

lemma X_in_at:
  assumes "0 < N"
  shows "(if int t < int L
          then readRow \<lparr>row_count = int L, col_count = int N,
                 cells = map (\<lambda>k. generated_element ''X'' True (k div N) (k mod N)) [0..<L * N]\<rparr>
                 (int t) 0 (int N)
          else js_Array_fill (int N) (ConstantInteger 0))
         = Inr (map (\<lambda>r. xel L r (int t)) [0..<N])"
proof (cases "t < L")
  case True
  have "map (\<lambda>j. generated_element ''X'' True ((t * N + j) div N) ((t * N + j) mod N)) [0..<N]
        = map (\<lambda>r. xel L r (int t)) [0..<N]"
    using True assms by (intro map_cong) (simp_all add: generated_element_def xel_def)
  with True show ?thesis by (simp add: readRow_closed)
next
  case False
  then show ?thesis
    by (simp add: js_Array_fill_def xel_def map_const_upt)
qed

lemma W_in_at:
  assumes "0 < N"
  shows "(if int t < int L
          then readRow \<lparr>row_count = int L, col_count = int N,
                 cells = map (\<lambda>k. generated_element ''W'' False (k div N) (k mod N)) [0..<L * N]\<rparr>
                 (int t) 0 (int N)
          else js_Array_fill (int N) (ConstantInteger 0))
         = Inr (map (\<lambda>c. wel L (int t) c) [0..<N])"
proof (cases "t < L")
  case True
  have "map (\<lambda>j. generated_element ''W'' False ((t * N + j) div N) ((t * N + j) mod N)) [0..<N]
        = map (\<lambda>c. wel L (int t) c) [0..<N]"
    using True assms by (intro map_cong) (simp_all add: generated_element_def wel_def)
  with True show ?thesis by (simp add: readRow_closed)
next
  case False
  then show ?thesis
    by (simp add: js_Array_fill_def wel_def map_const_upt)
qed

lemma in_row_iff:
  fixes N r k :: nat
  assumes "0 < N"
  shows "r * N \<le> k \<and> k < r * N + N \<longleftrightarrow> k div N = r"
proof
  assume "r * N \<le> k \<and> k < r * N + N"
  then have "N * r \<le> k" "k < N * Suc r" by (simp_all add: mult.commute)
  then show "k div N = r" by (rule div_nat_eqI)
next
  assume "k div N = r"
  then have "r * N = k - k mod N" by (simp add: minus_mod_eq_div_mult)
  moreover have "k mod N < N" "k mod N \<le> k" using assms by simp_all
  ultimately show "r * N \<le> k \<and> k < r * N + N" by linarith
qed

lemma Y_write_at:
  assumes "drainStart N L \<le> t" "t < drainStart N L + N"
  shows "writeRow \<lparr>row_count = int N, col_count = int N, cells = Y_cells N L t\<rparr>
           (int N - 1 - (int t - (2 * int N - 1 + int L))) 0 (int N)
           (map (\<lambda>j. psum (N - 1 - (t - drainStart N L)) j (int L)) [0..<N])
         = Inr \<lparr>row_count = int N, col_count = int N, cells = Y_cells N L (Suc t)\<rparr>"
proof -
  define r where "r = N - 1 - (t - drainStart N L)"
  from assms have N: "0 < N" and r: "r < N" by (simp_all add: r_def)
  have addr: "int N - 1 - (int t - (2 * int N - 1 + int L)) = int r"
    using assms by (simp add: r_def drainStart_def)
  have "(if r * N \<le> k \<and> k < r * N + N
         then js_nth (map (\<lambda>j. psum r j (int L)) [0..<N]) (k - r * N)
         else if drainStart N L + N \<le> t + k div N
              then psum (k div N) (k mod N) (int L) else ConstantInteger 0)
        = (if drainStart N L + N \<le> Suc t + k div N
           then psum (k div N) (k mod N) (int L) else ConstantInteger 0)" for k
  proof (cases "k div N = r")
    case True
    then have "k mod N = k - r * N" by (simp add: modulo_nat_def)
    moreover have "k mod N < N" using N by simp
    moreover have "drainStart N L + N \<le> Suc t + r" using assms by (simp add: r_def)
    ultimately show ?thesis
      using True by (simp add: js_nth_def in_row_iff [OF N])
  next
    case False
    moreover from False have "drainStart N L + N \<le> t + k div N \<longleftrightarrow> drainStart N L + N \<le> Suc t + k div N"
      using assms by (auto simp: r_def)
    ultimately show ?thesis
      by (simp add: in_row_iff [OF N])
  qed
  then show ?thesis
    unfolding addr r_def [symmetric] Y_cells_def
    by (simp add: writeRow_closed [OF r])
qed

lemma Y_cells_keep:
  assumes "t < drainStart N L \<or> drainStart N L + N \<le> t"
  shows "Y_cells N L (Suc t) = Y_cells N L t"
  unfolding Y_cells_def
proof (intro map_cong refl)
  fix k assume "k \<in> set [0..<N * N]"
  then have "k div N < N" by (simp add: less_mult_imp_div_less)
  with assms have "drainStart N L + N \<le> Suc t + k div N \<longleftrightarrow> drainStart N L + N \<le> t + k div N"
    by arith
  then show "(if drainStart N L + N \<le> Suc t + k div N
              then psum (k div N) (k mod N) (int L) else ConstantInteger 0)
           = (if drainStart N L + N \<le> t + k div N
              then psum (k div N) (k mod N) (int L) else ConstantInteger 0)"
    by simp
qed

lemma top_update_steps:
  assumes "produceControlSignals (controller s) = controls"
    "(if X_memReadEnable controls
      then readRow (X_mem s) (X_memReadAddress controls) 0 (arrayWidth s)
      else js_Array_fill (arrayWidth s) (ConstantInteger 0)) = Inr X_in"
    "(if W_memReadEnable controls
      then readRow (W_mem s) (W_memReadAddress controls) 0 (arrayWidth s)
      else js_Array_fill (arrayWidth s) (ConstantInteger 0)) = Inr W_in"
    "DelayRegisterTriangle_produce_output (X_delay s) X_in = Inr X_in_delayed"
    "DelayRegisterTriangle_update (X_delay s) X_in = Inr xd'"
    "DelayRegisterTriangle_produce_output (W_delay s) W_in = Inr W_in_delayed"
    "DelayRegisterTriangle_update (W_delay s) W_in = Inr wd'"
    "(if Y_memWriteEnable controls
      then writeRow (Y_mem s) (Y_memWriteAddress controls) 0 (arrayWidth s)
             (OutputStationarySystolicArray_produce_output (systolicArray s)
                (movesOutputDown controls))
      else Inr (Y_mem s)) = Inr ym'"
    "OutputStationarySystolicArray_update (systolicArray s) X_in_delayed W_in_delayed
       (movesOutputDown controls) = Inr sa'"
  shows "OutputStationaryTopLevel_update s
         = Inr (s\<lparr>Y_mem := ym', X_delay := xd', W_delay := wd', systolicArray := sa',
                  controller := OutputStationaryController_update (controller s)\<rparr>)"
  unfolding OutputStationaryTopLevel_update_def Let_def assms(1)
  by (simp only: assms bindE_def sum.case)

lemma controls_at:
  "0 < N \<Longrightarrow> produceControlSignals (controller (top_at N L t))
   = \<lparr>X_memReadEnable = int t < int L, X_memReadAddress = int t,
      W_memReadEnable = int t < int L, W_memReadAddress = int t,
      Y_memWriteEnable = (drainStart N L \<le> t \<and> t < drainStart N L + N),
      Y_memWriteAddress = int N - 1 - (int t - (2 * int N - 1 + int L)),
      movesOutputDown = (drainStart N L \<le> t)\<rparr>"
  by (auto simp: top_at_def produceControlSignals_def drainStart_def Let_def)

lemma top_step:
  assumes N: "0 < N"
  shows "OutputStationaryTopLevel_update (top_at N L t) = Inr (top_at N L (Suc t))"
proof -
  let ?s = "top_at N L t"
  let ?c = "\<lparr>X_memReadEnable = int t < int L, X_memReadAddress = int t,
      W_memReadEnable = int t < int L, W_memReadAddress = int t,
      Y_memWriteEnable = (drainStart N L \<le> t \<and> t < drainStart N L + N),
      Y_memWriteAddress = int N - 1 - (int t - (2 * int N - 1 + int L)),
      movesOutputDown = (drainStart N L \<le> t)\<rparr>"
  have x: "(if X_memReadEnable ?c
      then readRow (X_mem ?s) (X_memReadAddress ?c) 0 (arrayWidth ?s)
      else js_Array_fill (arrayWidth ?s) (ConstantInteger 0)) = Inr (map (\<lambda>r. xel L r (int t)) [0..<N])"
    using X_in_at [OF N, of t L] by (simp add: top_at_def split: if_split_asm)
  have w: "(if W_memReadEnable ?c
      then readRow (W_mem ?s) (W_memReadAddress ?c) 0 (arrayWidth ?s)
      else js_Array_fill (arrayWidth ?s) (ConstantInteger 0)) = Inr (map (\<lambda>c. wel L (int t) c) [0..<N])"
    using W_in_at [OF N, of t L] by (simp add: top_at_def split: if_split_asm)
  have xo: "DelayRegisterTriangle_produce_output (X_delay ?s) (map (\<lambda>r. xel L r (int t)) [0..<N])
            = Inr (map (\<lambda>r. xel L r (int t - int r)) [0..<N])"
    using X_delay_output [OF N, of L t] by (simp add: top_at_def)
  have xu: "DelayRegisterTriangle_update (X_delay ?s) (map (\<lambda>r. xel L r (int t)) [0..<N])
            = Inr \<lparr>dt_N = N - 1,
                registers = tri (N - 1) (\<lambda>i j. xel L (Suc i) (int (Suc t) - 1 - int j))\<rparr>"
    using X_delay_update [OF N, of L t] by (simp add: top_at_def)
  have wo: "DelayRegisterTriangle_produce_output (W_delay ?s) (map (\<lambda>c. wel L (int t) c) [0..<N])
            = Inr (map (\<lambda>c. wel L (int t - int c) c) [0..<N])"
    using W_delay_output [OF N, of L t] by (simp add: top_at_def)
  have wu: "DelayRegisterTriangle_update (W_delay ?s) (map (\<lambda>c. wel L (int t) c) [0..<N])
            = Inr \<lparr>dt_N = N - 1,
                registers = tri (N - 1) (\<lambda>i j. wel L (int (Suc t) - 1 - int j) (Suc i))\<rparr>"
    using W_delay_update [OF N, of L t] by (simp add: top_at_def)
  have y: "(if Y_memWriteEnable ?c
      then writeRow (Y_mem ?s) (Y_memWriteAddress ?c) 0 (arrayWidth ?s)
             (OutputStationarySystolicArray_produce_output (systolicArray ?s)
                (movesOutputDown ?c))
      else Inr (Y_mem ?s))
     = Inr \<lparr>row_count = int N, col_count = int N, cells = Y_cells N L (Suc t)\<rparr>"
  proof (cases "drainStart N L \<le> t \<and> t < drainStart N L + N")
    case True
    then show ?thesis
      using Y_write_at [of N L t] array_output_evict [of N L t]
      by (simp add: top_at_def)
  next
    case False
    then have "Y_cells N L (Suc t) = Y_cells N L t"
      by (intro Y_cells_keep) arith
    with False show ?thesis by (auto simp: top_at_def)
  qed
  have a: "OutputStationarySystolicArray_update (systolicArray ?s)
       (map (\<lambda>r. xel L r (int t - int r)) [0..<N]) (map (\<lambda>c. wel L (int t - int c) c) [0..<N])
       (movesOutputDown ?c) = Inr \<lparr>sa_N = N, sa_array = grid N (pe_at N L (Suc t))\<rparr>"
  proof (cases "drainStart N L \<le> t")
    case True
    then show ?thesis using array_evict_step [of N L t] by (simp add: top_at_def)
  next
    case False
    then show ?thesis using array_flow_step [of t N L] by (simp add: top_at_def)
  qed
  show ?thesis
    unfolding top_update_steps [OF controls_at [OF N] x w xo xu wo wu y a]
    by (simp add: top_at_def OutputStationaryController_update_def)
qed

section \<open>The whole run on the closed form\<close>

lemma toString_printed: "isValue v \<Longrightarrow> toString v = Inr (printed v)"
  by (cases v) (simp_all add: printed_def)

lemma mapE_total: "(\<And>x. x \<in> set xs \<Longrightarrow> f x = Inr (g x)) \<Longrightarrow> mapE f xs = Inr (map g xs)"
  by (induction xs) simp_all

lemma isValue_closed [simp]:
  "isValue (xel L i k)" "isValue (wel L k j)" "isValue (psum i j c)"
  "isValue (generated_element name tr i j)"
  by (simp_all add: xel_def wel_def psum_def generated_element_def)

lemma isValue_pe_at [simp]:
  "isValue (regs_X (pe_at N L t i j))" "isValue (regs_W (pe_at N L t i j))"
  "isValue (regs_Acc (pe_at N L t i j))"
  by (simp_all add: pe_at_def)

lemma dump_PE_printed:
  "isValue (regs_X pe) \<Longrightarrow> isValue (regs_W pe) \<Longrightarrow> isValue (regs_Acc pe) \<Longrightarrow>
   dump_PE pe = Inr (printed_PE pe)"
  by (simp add: dump_PE_def bindE_def toString_printed printed_PE_def)

lemma mapE_jag:
  assumes "\<And>i j. i < R \<Longrightarrow> j < C i \<Longrightarrow> f (h i j) = Inr (g (h i j))"
  shows "mapE (mapE f) (jag R C h) = Inr (map (map g) (jag R C h))"
proof (rule mapE_total)
  fix row assume "row \<in> set (jag R C h)"
  then obtain i where i: "i < R" "row = map (h i) [0..<C i]"
    by (auto simp: jag_def)
  show "mapE f row = Inr (map g row)"
    unfolding i(2) by (rule mapE_total) (use i(1) assms in auto)
qed

lemma dump_state_at:
  "dump_state (top_at N L t) = Inr (snapshot_at N L t)"
proof -
  have 1: "mapE toString (cells (X_mem (top_at N L t)))
           = Inr (map printed (cells (X_mem (top_at N L t))))"
    by (rule mapE_total) (auto simp: top_at_def toString_printed)
  have 2: "mapE toString (cells (W_mem (top_at N L t)))
           = Inr (map printed (cells (W_mem (top_at N L t))))"
    by (rule mapE_total) (auto simp: top_at_def toString_printed)
  have 3: "mapE toString (cells (Y_mem (top_at N L t))) = Inr (map printed (Y_cells N L t))"
    unfolding top_at_def by simp (rule mapE_total, rule toString_printed, auto simp: Y_cells_def)
  have 4: "mapE (mapE toString) (registers (X_delay (top_at N L t)))
           = Inr (map (map printed) (registers (X_delay (top_at N L t))))"
    unfolding top_at_def by simp (rule mapE_jag, simp add: toString_printed)
  have 5: "mapE (mapE toString) (registers (W_delay (top_at N L t)))
           = Inr (map (map printed) (registers (W_delay (top_at N L t))))"
    unfolding top_at_def by simp (rule mapE_jag, simp add: toString_printed)
  have 6: "mapE (mapE dump_PE) (sa_array (systolicArray (top_at N L t)))
           = Inr (map (map printed_PE) (sa_array (systolicArray (top_at N L t))))"
    unfolding top_at_def by simp (rule mapE_jag, simp add: dump_PE_printed)
  have 7: "cycleCount (controller (top_at N L t)) = int t" by (simp add: top_at_def)
  show ?thesis
    unfolding dump_state_def snapshot_at_def
    by (simp only: 1 2 3 4 5 6 7 bindE_def sum.case)
qed

lemma simulate_loop_at:
  assumes "0 < N"
  shows "simulate_loop n (top_at N L t)
         = Inr (map (snapshot_at N L) [t..<t + n], top_at N L (t + n))"
proof (induction n arbitrary: t)
  case 0
  then show ?case by simp
next
  case (Suc n)
  have "[t..<t + Suc n] = t # [Suc t..<Suc t + n]"
    by (simp add: upt_conv_Cons del: upt_Suc)
  then show ?case
    by (simp add: dump_state_at top_step [OF assms] Suc.IH bindE_def del: upt_Suc)
qed

lemma top_at_0:
  assumes "0 < N"
  shows "OutputStationaryTopLevel_new (int N) (int L) (int L) (int N) (int N) (int N)
         = Inr (top_at N L 0)"
proof -
  have d: "DelayRegisterTriangle_new (int N - 1)
           = Inr \<lparr>dt_N = N - 1, registers = tri (N - 1) (\<lambda>i j. ConstantInteger 0)\<rparr>"
    using assms DelayRegisterTriangle_new_tri [of "int N - 1"] by (simp add: nat_diff_distrib)
  have a: "OutputStationarySystolicArray_new (int N)
           = Inr \<lparr>sa_N = N, sa_array = grid N (pe_at N L 0)\<rparr>"
    by (simp add: OutputStationarySystolicArray_new_def jag_def pe_at_def pe_flow_def xel_def
        wel_def psum_def OutputStationaryPE_new_def)
  have y: "Y_cells N L 0 = map (\<lambda>k. ConstantInteger 0) [0..<N * N]"
    unfolding Y_cells_def
  proof (intro map_cong refl)
    fix k assume "k \<in> set [0..<N * N]"
    then have "k div N < N" by (simp add: less_mult_imp_div_less)
    with assms have "\<not> drainStart N L + N \<le> 0 + k div N" by (simp add: drainStart_def)
    then show "(if drainStart N L + N \<le> 0 + k div N
                then psum (k div N) (k mod N) (int L) else ConstantInteger 0) = ConstantInteger 0"
      by simp
  qed
  show ?thesis
    unfolding OutputStationaryTopLevel_new_def Let_def
    by (simp add: MatrixRAM_new_generated MatrixRAM_new_constant d a bindE_def
        OutputStationaryController_new_def)
       (simp add: top_at_def y xel_def wel_def)
qed

lemma new_Inr_top_at:
  assumes "OutputStationaryTopLevel_new a b c d e f = Inr s"
  shows "\<exists>N L. 0 < N \<and> a = int N \<and> b = int L \<and> c = int L \<and> d = int N \<and> e = int N \<and> f = int N
               \<and> s = top_at N L 0"
proof -
  from assms have dims: "b = c" "a = e" "d = f" "e = f"
    by (auto simp: OutputStationaryTopLevel_new_def split: if_splits)
  from assms dims have "\<not> b * e < 0" "\<not> e - 1 < 0"
    by (auto simp: OutputStationaryTopLevel_new_def Let_def bindE_Inr_iff MatrixRAM_new_def
        DelayRegisterTriangle_new_def split: if_splits)
  then have e: "0 < e" and b: "0 \<le> b"
    by (simp_all add: mult_less_0_iff not_less)
  define N L where "N = nat e" and "L = nat b"
  with e b have "0 < N" "e = int N" "b = int L" by simp_all
  with dims assms top_at_0 [of N L] show ?thesis by auto
qed

section \<open>The drain of the output\<close>

lemma Y_cells_zero:
  assumes "t \<le> drainStart N L"
  shows "Y_cells N L t = replicate (N * N) (ConstantInteger 0)"
proof -
  have "Y_cells N L t = map (\<lambda>k. ConstantInteger 0) [0..<N * N]"
    unfolding Y_cells_def
  proof (intro map_cong refl)
    fix k assume "k \<in> set [0..<N * N]"
    then have "k div N < N" by (simp add: less_mult_imp_div_less)
    with assms have "\<not> drainStart N L + N \<le> t + k div N" by simp
    then show "(if drainStart N L + N \<le> t + k div N
                then psum (k div N) (k mod N) (int L) else ConstantInteger 0) = ConstantInteger 0"
      by simp
  qed
  then show ?thesis by (simp add: map_const_upt)
qed

lemma Y_cells_full:
  assumes "drainStart N L + N \<le> t" "i < N" "j < N"
  shows "Y_cells N L t ! (i * N + j) = psum i j (int L)"
proof -
  have "i * N + j < N * N"
  proof -
    have "i * N + j < i * N + N" using assms(3) by simp
    also have "\<dots> = Suc i * N" by simp
    also have "\<dots> \<le> N * N" using assms(2) by (intro mult_le_mono1) simp
    finally show ?thesis .
  qed
  with assms show ?thesis by (simp add: Y_cells_def)
qed

lemma length_Y_cells [simp]: "length (Y_cells N L t) = N * N"
  by (simp add: Y_cells_def)

lemma printed_zero: "printed (ConstantInteger 0) = ''0''"
  by code_simp

lemma simulate_at:
  assumes "0 < N" "0 \<le> n"
  shows "simulate (top_at N L 0) (Some n)
         = Inr (map (snapshot_at N L) [0..<nat n], top_at N L (nat n))"
    and "simulate (top_at N L 0) None
         = Inr (map (snapshot_at N L) [0..<3 * N + L], top_at N L (3 * N + L))"
proof -
  show "simulate (top_at N L 0) (Some n)
         = Inr (map (snapshot_at N L) [0..<nat n], top_at N L (nat n))"
    using assms simulate_loop_at [OF assms(1), of "nat n" L 0] by (simp add: simulate_def)
  have "nat (3 * int N + int L) = 3 * N + L" by (simp add: nat_add_distrib nat_mult_distrib)
  then show "simulate (top_at N L 0) None
         = Inr (map (snapshot_at N L) [0..<3 * N + L], top_at N L (3 * N + L))"
    using simulate_loop_at [OF assms(1), of "3 * N + L" L 0]
    by (simp add: simulate_def top_at_def Let_def)
qed

lemma construct_2_2:
  "(case OutputStationaryTopLevel_new 2 2 2 2 2 2 of Inl e \<Rightarrow> False | Inr s \<Rightarrow> True)"
  by code_simp

text \<open>
  C1, as the claim states it, fails for a stream of length 0: the construction with a 1x1
  array, \<open>X\<close> 1x0 and \<open>W\<close> 0x1 succeeds, and after \<open>simulate(null)\<close> the only cell of the
  output memory is the zero constant, not a partial sum of count 0.
\<close>

theorem drain_completeness_counterexample:
  "map_sum id (cells \<circ> Y_mem \<circ> snd) (generateOutput 1 0 0 1 1 1) = Inr [ConstantInteger 0]"
  by code_simp

text \<open>
  C1, amended: for every construction of the top level that succeeds, with array width \<open>N\<close>
  and stream length \<open>L\<close> of at least 1, \<open>simulate(null)\<close> does not throw, returns
  \<open>3N + L\<close> snapshots, and leaves an output memory of \<open>N * N\<close> cells in which the cell of
  every row \<open>i\<close> and column \<open>j\<close> is the partial sum with left matrix \<open>X\<close>, right matrix \<open>W\<close>,
  indices \<open>i\<close> and \<open>j\<close>, and count \<open>L\<close>.
\<close>

theorem drain_completeness:
  assumes "OutputStationaryTopLevel_new X_row_count X_col_count W_row_count W_col_count
             systolic_row_count systolic_col_count = Inr s"
    and "1 \<le> X_col_count"
  shows "\<exists>snaps s'.
           simulate s None = Inr (snaps, s')
         \<and> length snaps = nat (3 * systolic_row_count + X_col_count)
         \<and> length (cells (Y_mem s')) = nat systolic_row_count * nat systolic_row_count
         \<and> (\<forall>i < nat systolic_row_count. \<forall>j < nat systolic_row_count.
               cells (Y_mem s') ! (i * nat systolic_row_count + j)
                 = SymbolicPartialSum ''X'' ''W'' (int i) (int j) X_col_count)"
proof -
  from new_Inr_top_at [OF assms(1)] obtain N L where
    N: "0 < N" and eqs: "systolic_row_count = int N" "X_col_count = int L" and s: "s = top_at N L 0"
    by blast
  from assms(2) eqs have L: "0 < L" by simp
  have run: "simulate s None = Inr (map (snapshot_at N L) [0..<3 * N + L], top_at N L (3 * N + L))"
    unfolding s using simulate_at(2) [OF N, of 0 L] by simp
  have len: "length (map (snapshot_at N L) [0..<3 * N + L]) = nat (3 * systolic_row_count + X_col_count)"
    by (simp add: eqs nat_add_distrib nat_mult_distrib)
  have cells: "cells (Y_mem (top_at N L (3 * N + L))) = Y_cells N L (3 * N + L)"
    by (simp add: top_at_def)
  have full: "drainStart N L + N \<le> 3 * N + L"
    using N by (simp add: drainStart_def)
  have "Y_cells N L (3 * N + L) ! (i * N + j) = SymbolicPartialSum ''X'' ''W'' (int i) (int j) (int L)"
    if "i < N" "j < N" for i j
    using Y_cells_full [OF full that] L by (simp add: psum_def)
  with run len cells show ?thesis
    by (simp add: eqs)
qed

theorem drain_completeness_witness:
  "\<exists>s snaps s'.
      OutputStationaryTopLevel_new 2 2 2 2 2 2 = Inr s
    \<and> simulate s None = Inr (snaps, s')
    \<and> length snaps = 8
    \<and> length (cells (Y_mem s')) = 4
    \<and> cells (Y_mem s') ! 2 = SymbolicPartialSum ''X'' ''W'' 1 0 2"
proof -
  from construct_2_2 obtain s where s: "OutputStationaryTopLevel_new 2 2 2 2 2 2 = Inr s"
    by (auto split: sum.splits)
  from drain_completeness [OF s] obtain snaps s' where
    "simulate s None = Inr (snaps, s')" "length snaps = 8" "length (cells (Y_mem s')) = 4"
    and all: "\<forall>i < 2. \<forall>j < 2. cells (Y_mem s') ! (i * 2 + j)
                 = SymbolicPartialSum ''X'' ''W'' (int i) (int j) 2"
    by auto
  moreover have "(1::nat) < 2" "(0::nat) < 2" by simp_all
  with all have "cells (Y_mem s') ! (1 * 2 + 0) = SymbolicPartialSum ''X'' ''W'' (int 1) (int 0) 2"
    by blast
  ultimately show ?thesis using s by auto
qed

text \<open>
  C9: for every construction of the top level that succeeds and every run of \<open>simulate\<close>
  (with \<open>null\<close> or a number of cycles that is not negative), the run does not throw, and in
  every snapshot \<open>c\<close> with \<open>c < drainStart = (2N - 1) + L\<close> every cell of the output memory
  prints as the zero constant; with \<open>null\<close> the run has more than \<open>drainStart\<close> snapshots.
\<close>

theorem output_memory_untouched_before_drain:
  assumes "OutputStationaryTopLevel_new X_row_count X_col_count W_row_count W_col_count
             systolic_row_count systolic_col_count = Inr s"
    and "\<forall>n. numCycles = Some n \<longrightarrow> 0 \<le> n"
  shows "\<exists>snaps s'.
           simulate s numCycles = Inr (snaps, s')
         \<and> (numCycles = None \<longrightarrow>
              (2 * systolic_row_count - 1) + X_col_count < int (length snaps))
         \<and> (\<forall>c < length snaps. int c < (2 * systolic_row_count - 1) + X_col_count \<longrightarrow>
               dump_Y_mem (regs (snaps ! c))
                 = replicate (nat (systolic_row_count * systolic_row_count)) ''0'')"
proof -
  from new_Inr_top_at [OF assms(1)] obtain N L where
    N: "0 < N" and eqs: "systolic_row_count = int N" "X_col_count = int L" and s: "s = top_at N L 0"
    by blast
  define m where "m = (case numCycles of None \<Rightarrow> 3 * N + L | Some n \<Rightarrow> nat n)"
  have run: "simulate s numCycles = Inr (map (snapshot_at N L) [0..<m], top_at N L m)"
  proof (cases numCycles)
    case None
    then show ?thesis unfolding s m_def using simulate_at(2) [OF N, of 0 L] by simp
  next
    case (Some n)
    with assms(2) have "0 \<le> n" by simp
    with Some show ?thesis unfolding s m_def using simulate_at(1) [OF N, of n L] by simp
  qed
  have D: "(2 * systolic_row_count - 1) + X_col_count = int (drainStart N L)"
    using N by (simp add: eqs drainStart_def)
  have none: "numCycles = None \<longrightarrow> int (drainStart N L) < int (length (map (snapshot_at N L) [0..<m]))"
    using N by (auto simp: m_def drainStart_def)
  have NN: "nat (systolic_row_count * systolic_row_count) = N * N"
    by (simp add: eqs nat_mult_distrib)
  have "dump_Y_mem (regs (map (snapshot_at N L) [0..<m] ! c)) = replicate (N * N) ''0''"
    if "c < m" "c < drainStart N L" for c
    using that by (simp add: snapshot_at_def Y_cells_zero printed_zero)
  with run none show ?thesis
    unfolding D NN by simp
qed

theorem output_memory_untouched_before_drain_witness:
  "\<exists>s snaps s'.
      OutputStationaryTopLevel_new 2 2 2 2 2 2 = Inr s
    \<and> simulate s None = Inr (snaps, s')
    \<and> 4 < length snaps
    \<and> dump_Y_mem (regs (snaps ! 4)) = [''0'', ''0'', ''0'', ''0'']"
proof -
  from construct_2_2 obtain s where s: "OutputStationaryTopLevel_new 2 2 2 2 2 2 = Inr s"
    by (auto split: sum.splits)
  from output_memory_untouched_before_drain [OF s, of None] obtain snaps s' where
    run: "simulate s None = Inr (snaps, s')" and len: "5 < length snaps"
    and all: "\<forall>c < length snaps. int c < 5 \<longrightarrow>
               dump_Y_mem (regs (snaps ! c)) = replicate (nat 4) ''0''"
    by auto
  from len all have "dump_Y_mem (regs (snaps ! 4)) = replicate (nat 4) ''0''"
    by simp
  moreover have "replicate (nat 4) ''0'' = [''0'', ''0'', ''0'', ''0'']"
    by (simp add: numeral_eq_Suc)
  ultimately show ?thesis using s run len by auto
qed

end
